theory Spec2Isabelle
  imports Complex_Main "HOL-Library.AList"
begin

section \<open>The SCAP Prometheus exporter: data model\<close>

text \<open>
  A shallow embedding of \<^verbatim>\<open>scap_prometheus_exporter.py\<close> and
  \<^verbatim>\<open>metrics_server.py\<close>. Python integers are \<open>int\<close>, Python floats are
  idealised as \<open>real\<close> (exact arithmetic), strings are \<open>string\<close>, an attribute that
  may hold Python's None is an \<open>option\<close>, every exception of the source is a value of
  \<open>py_error\<close>, and a try block is a function into \<open>py_error + 'a\<close> whose handler is
  written out.
\<close>

subsection \<open>Exceptions\<close>

datatype py_error =
  ParseError | FileNotFoundError | AttributeError | KeyError | SyntaxError
  | ValueError | OverflowError | OSError | TimeoutExpired

subsection \<open>ElementTree elements\<close>

text \<open>
  An element as \<^verbatim>\<open>xml.etree.ElementTree\<close> holds it: the tag in the form
  \<^verbatim>\<open>{namespace-uri}local\<close>, the attribute dictionary, the text before the first child
  (None when there is no character data), and the child elements in document order.
\<close>

datatype element =
  Element (tag: string) (attrib: "(string \<times> string) list") (etext: "string option")
    (children: "element list")

text \<open>\<^verbatim>\<open>elem.get(key, default)\<close> and \<^verbatim>\<open>elem.get(key)\<close>.\<close>

definition get_attr :: "element \<Rightarrow> string \<Rightarrow> string option" where
  "get_attr e key = map_of (attrib e) key"

definition get_default :: "element \<Rightarrow> string \<Rightarrow> string \<Rightarrow> string" where
  "get_default e key dflt = (case get_attr e key of None \<Rightarrow> dflt | Some v \<Rightarrow> v)"

text \<open>\<^verbatim>\<open>elem.iter()\<close>: the element and all its descendants, in document order.\<close>

fun iter :: "element \<Rightarrow> element list" where
  "iter (Element t a x cs) = Element t a x cs # concat (map iter cs)"

text \<open>
  The path \<^verbatim>\<open>.//tag\<close> selects among the elements beneath the current one, on all
  levels, and never the current element itself.
\<close>

definition descendants :: "element \<Rightarrow> element list" where
  "descendants e = concat (map iter (children e))"

text \<open>
  The prefix map of \<^verbatim>\<open>SCAPParser.__init__\<close>: a path step \<^verbatim>\<open>xccdf:local\<close> is the
  tag \<^verbatim>\<open>{http://checklists.nist.gov/xccdf/1.2}local\<close>.
\<close>

definition xccdf :: "string \<Rightarrow> string" where
  "xccdf local = ''{http://checklists.nist.gov/xccdf/1.2}'' @ local"

text \<open>
  \<^verbatim>\<open>elem.find('xccdf:t', ns)\<close> (first child with that tag),
  \<^verbatim>\<open>elem.findall('xccdf:t', ns)\<close> (all such children, in order) and
  \<^verbatim>\<open>elem.find('.//xccdf:t', ns)\<close> (first such descendant).
\<close>

definition find_child :: "string \<Rightarrow> element \<Rightarrow> element option" where
  "find_child t e = List.find (\<lambda>c. tag c = t) (children e)"

definition findall_children :: "string \<Rightarrow> element \<Rightarrow> element list" where
  "findall_children t e = filter (\<lambda>c. tag c = t) (children e)"

definition find_descendant :: "string \<Rightarrow> element \<Rightarrow> element option" where
  "find_descendant t e = List.find (\<lambda>c. tag c = t) (descendants e)"

subsection \<open>The result record\<close>

text \<open>
  The dictionary \<^verbatim>\<open>metrics\<close> of \<^verbatim>\<open>parse_results\<close> has a fixed set of twelve keys;
  it is a record with one field per key, read and written through the key strings
  (\<open>metrics_keys\<close>, \<open>incr\<close>). \<^verbatim>\<open>SCAPResult(..., **metrics)\<close> extends it by the
  remaining fields of the dataclass.
\<close>

record metrics =
  total_rules :: int
  passed_rules :: int
  failed_rules :: int
  error_rules :: int
  unknown_rules :: int
  notapplicable_rules :: int
  notchecked_rules :: int
  informational_rules :: int
  severity_high_failed :: int
  severity_medium_failed :: int
  severity_low_failed :: int
  severity_info_failed :: int

record rule_detail =
  rule_id :: string
  title :: string
  result :: string
  severity :: string

text \<open>
  The dataclass annotates \<^verbatim>\<open>hostname: str\<close>, but \<^verbatim>\<open>parse_results\<close> stores
  \<^verbatim>\<open>target_elem.text\<close> there, which is None for an empty target element.
\<close>

record SCAPResult = metrics +
  hostname :: "string option"
  profile :: string
  scan_time :: real
  compliance_score :: real
  benchmark_id :: string
  benchmark_version :: string
  rule_details :: "rule_detail list"

definition metrics_init :: metrics where
  "metrics_init = \<lparr>total_rules = 0, passed_rules = 0, failed_rules = 0, error_rules = 0,
     unknown_rules = 0, notapplicable_rules = 0, notchecked_rules = 0,
     informational_rules = 0, severity_high_failed = 0, severity_medium_failed = 0,
     severity_low_failed = 0, severity_info_failed = 0\<rparr>"

definition metrics_keys :: "string list" where
  "metrics_keys = [''total_rules'', ''passed_rules'', ''failed_rules'', ''error_rules'',
     ''unknown_rules'', ''notapplicable_rules'', ''notchecked_rules'',
     ''informational_rules'', ''severity_high_failed'', ''severity_medium_failed'',
     ''severity_low_failed'', ''severity_info_failed'']"

text \<open>\<^verbatim>\<open>metrics[key] += 1\<close>; a key the dictionary does not have raises KeyError.\<close>

definition incr :: "string \<Rightarrow> metrics \<Rightarrow> py_error + metrics" where
  "incr key m =
    (if key = ''total_rules'' then Inr (m\<lparr>total_rules := total_rules m + 1\<rparr>)
     else if key = ''passed_rules'' then Inr (m\<lparr>passed_rules := passed_rules m + 1\<rparr>)
     else if key = ''failed_rules'' then Inr (m\<lparr>failed_rules := failed_rules m + 1\<rparr>)
     else if key = ''error_rules'' then Inr (m\<lparr>error_rules := error_rules m + 1\<rparr>)
     else if key = ''unknown_rules'' then Inr (m\<lparr>unknown_rules := unknown_rules m + 1\<rparr>)
     else if key = ''notapplicable_rules''
       then Inr (m\<lparr>notapplicable_rules := notapplicable_rules m + 1\<rparr>)
     else if key = ''notchecked_rules''
       then Inr (m\<lparr>notchecked_rules := notchecked_rules m + 1\<rparr>)
     else if key = ''informational_rules''
       then Inr (m\<lparr>informational_rules := informational_rules m + 1\<rparr>)
     else if key = ''severity_high_failed''
       then Inr (m\<lparr>severity_high_failed := severity_high_failed m + 1\<rparr>)
     else if key = ''severity_medium_failed''
       then Inr (m\<lparr>severity_medium_failed := severity_medium_failed m + 1\<rparr>)
     else if key = ''severity_low_failed''
       then Inr (m\<lparr>severity_low_failed := severity_low_failed m + 1\<rparr>)
     else if key = ''severity_info_failed''
       then Inr (m\<lparr>severity_info_failed := severity_info_failed m + 1\<rparr>)
     else Inl KeyError)"

text \<open>The table \<^verbatim>\<open>status_mapping\<close>, from result status to metric key.\<close>

definition status_mapping :: "(string \<times> string) list" where
  "status_mapping =
    [(''pass'', ''passed_rules''), (''fail'', ''failed_rules''), (''error'', ''error_rules''),
     (''unknown'', ''unknown_rules''), (''notapplicable'', ''notapplicable_rules''),
     (''notchecked'', ''notchecked_rules''), (''informational'', ''informational_rules'')]"

subsection \<open>What the Python runtime and its libraries decide\<close>

text \<open>
  The parser calls into code that is not part of the repository. It is a parameter of
  the model, so every theorem holds whatever these functions compute:
  \<^item> \<open>str_lower\<close> is \<^verbatim>\<open>str.lower\<close> (Unicode case folding);
  \<^item> \<open>fromisoformat_timestamp\<close> is
    \<^verbatim>\<open>datetime.fromisoformat(s).timestamp()\<close>, None when either call raises;
  \<^item> \<open>elementpath_find\<close> is \<^verbatim>\<open>Element.find(path)\<close> for a path text that is more
    than the three shapes modelled above; it is reached only when a rule id contains
    a double quote and so ends the quoted value of the predicate early.
\<close>

record py_runtime =
  str_lower :: "string \<Rightarrow> string"
  fromisoformat_timestamp :: "string \<Rightarrow> real option"
  elementpath_find :: "string \<Rightarrow> element \<Rightarrow> py_error + element option"

text \<open>\<^verbatim>\<open>s.replace('Z', '+00:00')\<close>.\<close>

definition replace_Z :: "string \<Rightarrow> string" where
  "replace_Z s = concat (map (\<lambda>c. if c = CHR ''Z'' then ''+00:00'' else [c]) s)"

text \<open>The files the parser and the scanner see: a path holds well-formed XML or not.\<close>

datatype file_content = Xml element | Malformed

type_synonym filesystem = "string \<rightharpoonup> file_content"

text \<open>\<^verbatim>\<open>ET.parse(xml_file).getroot()\<close>.\<close>

definition ET_parse :: "filesystem \<Rightarrow> string \<Rightarrow> py_error + element" where
  "ET_parse fs xml_file =
    (case fs xml_file of
       None \<Rightarrow> Inl FileNotFoundError
     | Some Malformed \<Rightarrow> Inl ParseError
     | Some (Xml doc) \<Rightarrow> Inr doc)"

section \<open>SCAPParser.parse_results\<close>

text \<open>
  \<^verbatim>\<open>benchmark.find(f'.//xccdf:Rule[@id="{rule_id}"]', ns)\<close>: the first Rule element
  beneath the benchmark whose id attribute is the rule id. The rule id is pasted into
  the path text unescaped; with a double quote in it the path is no longer of this
  shape and the path engine decides (it may raise SyntaxError).
\<close>

definition rule_path :: "string \<Rightarrow> string" where
  "rule_path rid = ''.//xccdf:Rule[@id='' @ [CHR 0x22] @ rid @ [CHR 0x22] @ '']''"

definition find_rule :: "py_runtime \<Rightarrow> element \<Rightarrow> string \<Rightarrow> py_error + element option" where
  "find_rule rt benchmark rid =
    (if CHR 0x22 \<in> set rid then elementpath_find rt (rule_path rid) benchmark
     else Inr (List.find (\<lambda>e. tag e = xccdf ''Rule'' \<and> get_attr e ''id'' = Some rid)
                 (descendants benchmark)))"

text \<open>
  Lines 133 to 145: count by status. A status outside the table counts nowhere.
\<close>

definition count_status :: "string \<Rightarrow> metrics \<Rightarrow> py_error + metrics" where
  "count_status result_status m =
    (case map_of status_mapping result_status of
       None \<Rightarrow> Inr m
     | Some key \<Rightarrow> incr key m)"

text \<open>
  Lines 147 to 156: severity and title from the rule definition, with their defaults.
\<close>

definition rule_severity :: "py_runtime \<Rightarrow> element option \<Rightarrow> string" where
  "rule_severity rt rule_def =
    (case rule_def of
       None \<Rightarrow> ''unknown''
     | Some rd \<Rightarrow> str_lower rt (get_default rd ''severity'' ''unknown''))"

definition rule_title_of :: "element option \<Rightarrow> string \<Rightarrow> string" where
  "rule_title_of rule_def rid =
    (case rule_def of
       None \<Rightarrow> rid
     | Some rd \<Rightarrow>
        (case find_child (xccdf ''title'') rd of
           None \<Rightarrow> rid
         | Some title_elem \<Rightarrow>
            (case etext title_elem of
               None \<Rightarrow> rid
             | Some s \<Rightarrow> if s = [] then rid else s)))"

text \<open>
  Lines 158 to 162: a failed rule is counted under the key
  \<^verbatim>\<open>severity_{severity}_failed\<close> when the dictionary has that key.
\<close>

definition count_severity :: "string \<Rightarrow> string \<Rightarrow> metrics \<Rightarrow> py_error + metrics" where
  "count_severity result_status sev m =
    (if result_status = ''fail'' then
       (let severity_key = ''severity_'' @ sev @ ''_failed''
        in if severity_key \<in> set metrics_keys then incr severity_key m else Inr m)
     else Inr m)"

text \<open>
  One turn of the loop over the rule-result elements (lines 123 to 170), on the pair
  of the counters and the detail list. \<^verbatim>\<open>continue\<close> returns the state with only the
  total incremented; \<^verbatim>\<open>result_elem.text.lower()\<close> raises AttributeError on None.
\<close>

definition process_rule_result ::
  "py_runtime \<Rightarrow> element \<Rightarrow> element \<Rightarrow> metrics \<times> rule_detail list
     \<Rightarrow> py_error + metrics \<times> rule_detail list" where
  "process_rule_result rt benchmark rule_result st =
    (let rid = get_default rule_result ''idref'' '''' in
     case incr ''total_rules'' (fst st) of
       Inl e \<Rightarrow> Inl e
     | Inr m1 \<Rightarrow>
        (case find_child (xccdf ''result'') rule_result of
           None \<Rightarrow> Inr (m1, snd st)
         | Some result_elem \<Rightarrow>
            (case etext result_elem of
               None \<Rightarrow> Inl AttributeError
             | Some txt \<Rightarrow>
                (let result_status = str_lower rt txt in
                 case count_status result_status m1 of
                   Inl e \<Rightarrow> Inl e
                 | Inr m2 \<Rightarrow>
                    (case find_rule rt benchmark rid of
                       Inl e \<Rightarrow> Inl e
                     | Inr rule_def \<Rightarrow>
                        (let sev = rule_severity rt rule_def;
                             rule_title = rule_title_of rule_def rid
                         in case count_severity result_status sev m2 of
                              Inl e \<Rightarrow> Inl e
                            | Inr m3 \<Rightarrow>
                               Inr (m3, snd st @
                                 [\<lparr>rule_id = rid, title = rule_title,
                                   result = result_status, severity = sev\<rparr>])))))))"

text \<open>The loop: the first exception ends it.\<close>

fun process_rule_results ::
  "py_runtime \<Rightarrow> element \<Rightarrow> element list \<Rightarrow> metrics \<times> rule_detail list
     \<Rightarrow> py_error + metrics \<times> rule_detail list" where
  "process_rule_results rt benchmark [] st = Inr st"
| "process_rule_results rt benchmark (rr # rrs) st =
    (case process_rule_result rt benchmark rr st of
       Inl e \<Rightarrow> Inl e
     | Inr st' \<Rightarrow> process_rule_results rt benchmark rrs st')"

text \<open>Lines 172 to 178: the compliance score.\<close>

definition compliance :: "metrics \<Rightarrow> real" where
  "compliance m =
    (if total_rules m > 0 then
       (let applicable_rules = total_rules m - notapplicable_rules m - notchecked_rules m
        in if applicable_rules > 0
           then (real_of_int (passed_rules m) / real_of_int applicable_rules) * 100
           else 0)
     else 0)"

text \<open>
  Lines 78 to 85: the test result is the root when the root is a TestResult element,
  else the first TestResult beneath it.
\<close>

definition locate_test_result :: "element \<Rightarrow> element option" where
  "locate_test_result doc =
    (if tag doc = ''{http://checklists.nist.gov/xccdf/1.2}TestResult'' then Some doc
     else find_descendant (xccdf ''TestResult'') doc)"

text \<open>
  Lines 90 to 92. The conditional expression binds weaker than \<^verbatim>\<open>or\<close>: a target
  element gives its text (possibly None); only without one does the caller's hostname
  count, and \<^verbatim>\<open>hostname or 'unknown'\<close> replaces None and the empty string.
\<close>

definition target_hostname :: "element \<Rightarrow> string option \<Rightarrow> string option" where
  "target_hostname test_result hostname_arg =
    (case find_child (xccdf ''target'') test_result of
       Some target_elem \<Rightarrow> etext target_elem
     | None \<Rightarrow>
        (case hostname_arg of
           None \<Rightarrow> Some ''unknown''
         | Some h \<Rightarrow> if h = [] then Some ''unknown'' else Some h))"

text \<open>
  Lines 94 to 101: the start time when the element is there and its text parses; the
  bare \<^verbatim>\<open>except\<close> keeps the default, the current time \<open>now\<close>, on any exception
  (also the AttributeError of a start-time element without text).
\<close>

definition start_time :: "py_runtime \<Rightarrow> element \<Rightarrow> real option" where
  "start_time rt test_result =
    (case find_child (xccdf ''start-time'') test_result of
       None \<Rightarrow> None
     | Some start_time_elem \<Rightarrow>
        (case etext start_time_elem of
           None \<Rightarrow> None
         | Some s \<Rightarrow> fromisoformat_timestamp rt (replace_Z s)))"

definition scan_time_of :: "py_runtime \<Rightarrow> element \<Rightarrow> real \<Rightarrow> real" where
  "scan_time_of rt test_result now =
    (case start_time rt test_result of None \<Rightarrow> now | Some t \<Rightarrow> t)"

text \<open>
  The body of the try block of \<^verbatim>\<open>parse_results\<close>: \<open>Inl\<close> is an exception raised in
  it, \<open>Inr None\<close> one of its two \<^verbatim>\<open>return None\<close>, \<open>Inr (Some r)\<close> the record.
  \<open>now\<close> is the value of \<^verbatim>\<open>time.time()\<close> at line 96.
\<close>

definition parse_results_try ::
  "py_runtime \<Rightarrow> filesystem \<Rightarrow> string \<Rightarrow> string option \<Rightarrow> real
     \<Rightarrow> py_error + SCAPResult option" where
  "parse_results_try rt fs xml_file hostname_arg now =
    (case ET_parse fs xml_file of
       Inl e \<Rightarrow> Inl e
     | Inr doc \<Rightarrow>
        (case find_descendant (xccdf ''Benchmark'') doc of
           None \<Rightarrow> Inr None
         | Some benchmark \<Rightarrow>
            (case locate_test_result doc of
               None \<Rightarrow> Inr None
             | Some test_result \<Rightarrow>
                (let profile_v =
                       (case find_child (xccdf ''profile'') test_result of
                          None \<Rightarrow> ''unknown''
                        | Some profile_elem \<Rightarrow> get_default profile_elem ''idref'' ''unknown'')
                 in case process_rule_results rt benchmark
                           (findall_children (xccdf ''rule-result'') test_result)
                           (metrics_init, []) of
                      Inl e \<Rightarrow> Inl e
                    | Inr (m, details) \<Rightarrow>
                       Inr (Some (metrics.extend m
                         \<lparr>hostname = target_hostname test_result hostname_arg,
                          profile = profile_v,
                          scan_time = scan_time_of rt test_result now,
                          compliance_score = compliance m,
                          benchmark_id = get_default benchmark ''id'' ''unknown'',
                          benchmark_version = get_default benchmark ''version'' ''unknown'',
                          rule_details = details\<rparr>))))))"

text \<open>
  \<^verbatim>\<open>parse_results\<close>: the handler \<^verbatim>\<open>except Exception\<close> turns every exception of the
  body into None.
\<close>

definition parse_results ::
  "py_runtime \<Rightarrow> filesystem \<Rightarrow> string \<Rightarrow> string option \<Rightarrow> real \<Rightarrow> SCAPResult option" where
  "parse_results rt fs xml_file hostname_arg now =
    (case parse_results_try rt fs xml_file hostname_arg now of
       Inl e \<Rightarrow> None
     | Inr r \<Rightarrow> r)"

section \<open>Vocabulary of the properties\<close>

text \<open>
  The lower-cased status text of a rule-result as line 131 reads it: that of its first
  result child; None without such a child or without text in it.
\<close>

definition result_status_of :: "py_runtime \<Rightarrow> element \<Rightarrow> string option" where
  "result_status_of rt rule_result =
    (case find_child (xccdf ''result'') rule_result of
       None \<Rightarrow> None
     | Some result_elem \<Rightarrow> map_option (str_lower rt) (etext result_elem))"

text \<open>The seven status keywords are the keys of \<^verbatim>\<open>status_mapping\<close>.\<close>

definition known_status :: "string \<Rightarrow> bool" where
  "known_status s = (s \<in> set (map fst status_mapping))"

text \<open>How many entries of a list satisfy a condition, as a Python integer.\<close>

definition cnt :: "('a \<Rightarrow> bool) \<Rightarrow> 'a list \<Rightarrow> int" where
  "cnt P xs = int (length (filter P xs))"

text \<open>
  \<open>counted m new m'\<close>: from \<open>m\<close> to \<open>m'\<close>, each status counter grew by the number
  of details in \<open>new\<close> with that result, and each severity counter by the number of
  failed details with that severity.
\<close>

definition counted :: "'a metrics_scheme \<Rightarrow> rule_detail list \<Rightarrow> 'b metrics_scheme \<Rightarrow> bool" where
  "counted m new m' \<longleftrightarrow>
     passed_rules m' = passed_rules m + cnt (\<lambda>d. result d = ''pass'') new \<and>
     failed_rules m' = failed_rules m + cnt (\<lambda>d. result d = ''fail'') new \<and>
     error_rules m' = error_rules m + cnt (\<lambda>d. result d = ''error'') new \<and>
     unknown_rules m' = unknown_rules m + cnt (\<lambda>d. result d = ''unknown'') new \<and>
     notapplicable_rules m' = notapplicable_rules m + cnt (\<lambda>d. result d = ''notapplicable'') new \<and>
     notchecked_rules m' = notchecked_rules m + cnt (\<lambda>d. result d = ''notchecked'') new \<and>
     informational_rules m' = informational_rules m + cnt (\<lambda>d. result d = ''informational'') new \<and>
     severity_high_failed m' = severity_high_failed m
        + cnt (\<lambda>d. result d = ''fail'' \<and> severity d = ''high'') new \<and>
     severity_medium_failed m' = severity_medium_failed m
        + cnt (\<lambda>d. result d = ''fail'' \<and> severity d = ''medium'') new \<and>
     severity_low_failed m' = severity_low_failed m
        + cnt (\<lambda>d. result d = ''fail'' \<and> severity d = ''low'') new \<and>
     severity_info_failed m' = severity_info_failed m
        + cnt (\<lambda>d. result d = ''fail'' \<and> severity d = ''info'') new"

definition status_list :: "py_runtime \<Rightarrow> element \<Rightarrow> string list" where
  "status_list rt rr = (case result_status_of rt rr of None \<Rightarrow> [] | Some s \<Rightarrow> [s])"

text \<open>The rule-result elements the loop of line 122 runs over.\<close>

definition rule_results_of :: "element \<Rightarrow> element list" where
  "rule_results_of doc =
    (case locate_test_result doc of
       None \<Rightarrow> []
     | Some test_result \<Rightarrow> findall_children (xccdf ''rule-result'') test_result)"

definition recognised :: "py_runtime \<Rightarrow> element \<Rightarrow> bool" where
  "recognised rt rule_result =
    (case result_status_of rt rule_result of None \<Rightarrow> False | Some s \<Rightarrow> known_status s)"

text \<open>
  A rule-result on which a turn of the loop raises: its first result child has no text
  (line 131), or it has text and the lookup of the rule raises (line 148).
\<close>

definition rule_result_raises :: "py_runtime \<Rightarrow> element \<Rightarrow> element \<Rightarrow> bool" where
  "rule_result_raises rt benchmark rule_result =
    (case find_child (xccdf ''result'') rule_result of
       None \<Rightarrow> False
     | Some result_elem \<Rightarrow>
        (case etext result_elem of
           None \<Rightarrow> True
         | Some tx \<Rightarrow>
            (case find_rule rt benchmark (get_default rule_result ''idref'' '''') of
               Inl e \<Rightarrow> True
             | Inr rule_def \<Rightarrow> False)))"

text \<open>The start time the parser reads from a file, None when it falls back to now.\<close>

definition doc_start_time :: "py_runtime \<Rightarrow> filesystem \<Rightarrow> string \<Rightarrow> real option" where
  "doc_start_time rt fs xml_file =
    (case ET_parse fs xml_file of
       Inl e \<Rightarrow> None
     | Inr doc \<Rightarrow>
        (case locate_test_result doc of
           None \<Rightarrow> None
         | Some test_result \<Rightarrow> start_time rt test_result))"

section \<open>Concrete inputs\<close>

text \<open>
  A runtime for evaluating the model: lower-casing of ASCII letters, one timestamp
  the ISO parser knows, and a path engine that rejects every path it is asked.
\<close>

definition ascii_lower :: "string \<Rightarrow> string" where
  "ascii_lower s =
    map (\<lambda>c. case map_of (zip ''ABCDEFGHIJKLMNOPQRSTUVWXYZ'' ''abcdefghijklmnopqrstuvwxyz'') c of
                None \<Rightarrow> c | Some l \<Rightarrow> l) s"

definition sample_runtime :: py_runtime where
  "sample_runtime =
    \<lparr>str_lower = ascii_lower,
     fromisoformat_timestamp =
       (\<lambda>s. if s = ''2024-01-01T12:00:00+00:00'' then Some 1704110400 else None),
     elementpath_find = (\<lambda>path e. Inl SyntaxError)\<rparr>"

text \<open>
  The document of \<^verbatim>\<open>create_sample_scap_results\<close> in \<^verbatim>\<open>test_exporter.py\<close>
  (without its indentation) and the record the parser returns for it.
\<close>

definition sample_rule :: "string \<Rightarrow> string \<Rightarrow> string \<Rightarrow> element" where
  "sample_rule rid sev ttl =
    Element (xccdf ''Rule'') [(''id'', rid), (''severity'', sev)] None
      [Element (xccdf ''title'') [] (Some ttl) []]"

definition sample_rule_result :: "string \<Rightarrow> string \<Rightarrow> element" where
  "sample_rule_result rid res =
    Element (xccdf ''rule-result'') [(''idref'', rid)] None
      [Element (xccdf ''result'') [] (Some res) []]"

definition sample_benchmark :: element where
  "sample_benchmark =
    Element (xccdf ''benchmark'') [(''href'', ''/usr/share/xml/scap/ssg/content/ssg-test-ds.xml'')] None
     [Element (xccdf ''Benchmark'')
        [(''id'', ''xccdf_org.ssgproject.content_benchmark_DEBIAN''), (''version'', ''1.0'')] None
        [sample_rule ''xccdf_org.ssgproject.content_rule_accounts_password_minlen_login_defs''
           ''medium'' ''Set Password Minimum Length'',
         sample_rule ''xccdf_org.ssgproject.content_rule_accounts_max_concurrent_login_sessions''
           ''high'' ''Limit Concurrent Login Sessions'',
         sample_rule ''xccdf_org.ssgproject.content_rule_service_ssh_disabled''
           ''low'' ''Disable SSH Service'',
         sample_rule ''xccdf_org.ssgproject.content_rule_bootloader_password''
           ''medium'' ''Set Boot Loader Password'',
         sample_rule ''xccdf_org.ssgproject.content_rule_package_sudo_installed''
           ''info'' ''Install sudo Package'']]"

definition sample_scap_results :: element where
  "sample_scap_results =
    Element (xccdf ''TestResult'') [(''id'', ''xccdf_org.open-scap_testresult_standard'')] None
     [sample_benchmark,
      Element (xccdf ''profile'') [(''idref'', ''xccdf_org.ssgproject.content_profile_cis'')] None [],
      Element (xccdf ''target'') [] (Some ''test-server'') [],
      Element (xccdf ''start-time'') [] (Some ''2024-01-01T12:00:00Z'') [],
      sample_rule_result ''xccdf_org.ssgproject.content_rule_accounts_password_minlen_login_defs'' ''pass'',
      sample_rule_result ''xccdf_org.ssgproject.content_rule_accounts_max_concurrent_login_sessions'' ''fail'',
      sample_rule_result ''xccdf_org.ssgproject.content_rule_service_ssh_disabled'' ''fail'',
      sample_rule_result ''xccdf_org.ssgproject.content_rule_bootloader_password'' ''notapplicable'',
      sample_rule_result ''xccdf_org.ssgproject.content_rule_package_sudo_installed'' ''error'']"

definition sample_fs :: filesystem where
  "sample_fs = [''sample_scap_results.xml'' \<mapsto> Xml sample_scap_results]"

definition sample_result :: SCAPResult where
  "sample_result =
  \<lparr>total_rules = 5, passed_rules = 1, failed_rules = 2, error_rules = 1,
     unknown_rules = 0, notapplicable_rules = 1, notchecked_rules = 0,
     informational_rules = 0, severity_high_failed = 1,
     severity_medium_failed = 0, severity_low_failed = 1,
     severity_info_failed = 0, hostname = Some ''test-server'',
     profile = ''xccdf_org.ssgproject.content_profile_cis'',
     scan_time = 1704110400, compliance_score = 25,
     benchmark_id = ''xccdf_org.ssgproject.content_benchmark_DEBIAN'',
     benchmark_version = ''1.0'',
     rule_details =
       [\<lparr>rule_id =
           ''xccdf_org.ssgproject.content_rule_accounts_password_minlen_login_defs'',
           title = ''Set Password Minimum Length'', result = ''pass'',
           severity = ''medium''\<rparr>,
        \<lparr>rule_id =
           ''xccdf_org.ssgproject.content_rule_accounts_max_concurrent_login_sessions'',
           title = ''Limit Concurrent Login Sessions'', result = ''fail'',
           severity = ''high''\<rparr>,
        \<lparr>rule_id =
           ''xccdf_org.ssgproject.content_rule_service_ssh_disabled'',
           title = ''Disable SSH Service'', result = ''fail'',
           severity = ''low''\<rparr>,
        \<lparr>rule_id =
           ''xccdf_org.ssgproject.content_rule_bootloader_password'',
           title = ''Set Boot Loader Password'', result = ''notapplicable'',
           severity = ''medium''\<rparr>,
        \<lparr>rule_id =
           ''xccdf_org.ssgproject.content_rule_package_sudo_installed'',
           title = ''Install sudo Package'', result = ''error'',
           severity = ''info''\<rparr>]\<rparr>"

text \<open>
  A test result whose one rule has the XCCDF status \<^verbatim>\<open>notselected\<close>, which the table
  \<^verbatim>\<open>status_mapping\<close> does not list.
\<close>

definition small_rules :: element where
  "small_rules =
    Element (xccdf ''Benchmark'') [(''id'', ''bench''), (''version'', ''1.0'')] None
      [sample_rule ''rule_a'' ''high'' ''Rule A'',
       sample_rule ''rule_b'' ''critical'' ''Rule B'']"

definition small_benchmark :: element where
  "small_benchmark = Element (xccdf ''benchmark'') [] None [small_rules]"

definition notselected_doc :: element where
  "notselected_doc =
    Element (xccdf ''TestResult'') [] None
     [small_benchmark, sample_rule_result ''rule_a'' ''notselected'']"

definition notselected_fs :: filesystem where
  "notselected_fs = [''results.xml'' \<mapsto> Xml notselected_doc]"

definition notselected_result :: "real \<Rightarrow> SCAPResult" where
  "notselected_result now =
    \<lparr>total_rules = 1, passed_rules = 0, failed_rules = 0, error_rules = 0,
     unknown_rules = 0, notapplicable_rules = 0, notchecked_rules = 0,
     informational_rules = 0, severity_high_failed = 0, severity_medium_failed = 0,
     severity_low_failed = 0, severity_info_failed = 0, hostname = Some ''unknown'',
     profile = ''unknown'', scan_time = now, compliance_score = 0,
     benchmark_id = ''bench'', benchmark_version = ''1.0'',
     rule_details = [\<lparr>rule_id = ''rule_a'', title = ''Rule A'',
        result = ''notselected'', severity = ''high''\<rparr>]\<rparr>"

text \<open>A test result, with a rule-result, and no Benchmark element anywhere.\<close>

definition no_benchmark_doc :: element where
  "no_benchmark_doc =
    Element (xccdf ''TestResult'') [] None
     [Element (xccdf ''target'') [] (Some ''host1'') [],
      sample_rule_result ''rule_a'' ''pass'']"

definition no_benchmark_fs :: filesystem where
  "no_benchmark_fs = [''results.xml'' \<mapsto> Xml no_benchmark_doc]"

text \<open>
  A test result with a passed rule and, after it, a rule-result whose result element
  is empty; and the same document without that second rule-result.
\<close>

definition empty_result_doc :: element where
  "empty_result_doc =
    Element (xccdf ''TestResult'') [] None
     [small_benchmark,
      sample_rule_result ''rule_a'' ''pass'',
      Element (xccdf ''rule-result'') [(''idref'', ''rule_b'')] None
        [Element (xccdf ''result'') [] None []]]"

definition empty_result_fs :: filesystem where
  "empty_result_fs = [''results.xml'' \<mapsto> Xml empty_result_doc]"

definition one_pass_doc :: element where
  "one_pass_doc =
    Element (xccdf ''TestResult'') [] None
     [small_benchmark, sample_rule_result ''rule_a'' ''pass'']"

definition one_pass_fs :: filesystem where
  "one_pass_fs = [''results.xml'' \<mapsto> Xml one_pass_doc]"

text \<open>
  A rule-result with an empty result element, in the second test result of a document:
  the parser reads the first test result only. And a rule-result whose second result
  child is empty: the parser reads the first result child only. Both documents parse
  to the record of the one passed rule.
\<close>

definition empty_rule_result :: element where
  "empty_rule_result =
    Element (xccdf ''rule-result'') [(''idref'', ''rule_b'')] None
      [Element (xccdf ''result'') [] None []]"

definition two_test_results_doc :: element where
  "two_test_results_doc =
    Element ''collection'' [] None
     [small_rules,
      Element (xccdf ''TestResult'') [] None [sample_rule_result ''rule_a'' ''pass''],
      Element (xccdf ''TestResult'') [] None [empty_rule_result]]"

definition two_test_results_fs :: filesystem where
  "two_test_results_fs = [''results.xml'' \<mapsto> Xml two_test_results_doc]"

definition two_results_rule :: element where
  "two_results_rule =
    Element (xccdf ''rule-result'') [(''idref'', ''rule_a'')] None
      [Element (xccdf ''result'') [] (Some ''pass'') [],
       Element (xccdf ''result'') [] None []]"

definition two_results_doc :: element where
  "two_results_doc =
    Element (xccdf ''TestResult'') [] None [small_benchmark, two_results_rule]"

definition two_results_fs :: filesystem where
  "two_results_fs = [''results.xml'' \<mapsto> Xml two_results_doc]"

definition one_pass_result :: "real \<Rightarrow> SCAPResult" where
  "one_pass_result now =
    \<lparr>total_rules = 1, passed_rules = 1, failed_rules = 0, error_rules = 0,
     unknown_rules = 0, notapplicable_rules = 0, notchecked_rules = 0,
     informational_rules = 0, severity_high_failed = 0, severity_medium_failed = 0,
     severity_low_failed = 0, severity_info_failed = 0, hostname = Some ''unknown'',
     profile = ''unknown'', scan_time = now, compliance_score = 100,
     benchmark_id = ''bench'', benchmark_version = ''1.0'',
     rule_details = [\<lparr>rule_id = ''rule_a'', title = ''Rule A'',
        result = ''pass'', severity = ''high''\<rparr>]\<rparr>"

section \<open>PrometheusExporter\<close>

text \<open>
  The registry as the exporter writes it: a gauge sample for a metric name and a tuple
  of label values, and the key-value pairs of an info metric. \<^verbatim>\<open>latest_results\<close> is
  a Python dictionary, kept in insertion order: an association list, written with
  \<open>AList.update\<close> (an existing key keeps its place and takes the new value).
\<close>

record registry =
  gauges :: "string \<times> string list \<rightharpoonup> real"
  infos :: "string \<times> string list \<rightharpoonup> (string \<times> string) list"

record PrometheusExporter =
  exporter_registry :: registry
  latest_results :: "(string \<times> SCAPResult) list"

text \<open>\<^verbatim>\<open>PrometheusExporter.__init__\<close>: the metrics are declared and have no sample.\<close>

definition PrometheusExporter_init :: PrometheusExporter where
  "PrometheusExporter_init =
    \<lparr>exporter_registry = \<lparr>gauges = Map.empty, infos = Map.empty\<rparr>, latest_results = []\<rparr>"

text \<open>
  \<^verbatim>\<open>str(x)\<close> for a value that is a string or None, as \<^verbatim>\<open>labels()\<close> and an f-string
  apply it to \<^verbatim>\<open>result.hostname\<close>.
\<close>

definition py_str :: "string option \<Rightarrow> string" where
  "py_str x = (case x of None \<Rightarrow> ''None'' | Some s \<Rightarrow> s)"

text \<open>Line 350: the key of a record in \<^verbatim>\<open>latest_results\<close>.\<close>

definition result_key :: "SCAPResult \<Rightarrow> string" where
  "result_key r = py_str (hostname r) @ ''_'' @ profile r"

text \<open>Lines 310 to 340: the gauge samples of one record, in the order they are set.\<close>

definition gauge_samples :: "SCAPResult \<Rightarrow> ((string \<times> string list) \<times> real) list" where
  "gauge_samples r =
    (let labels = [py_str (hostname r), profile r, benchmark_id r] in
     [((''scap_compliance_score_percent'', labels), compliance_score r),
      ((''scap_total_rules'', labels), real_of_int (total_rules r)),
      ((''scap_last_scan_timestamp_seconds'', labels), scan_time r),
      ((''scap_rules_by_status'', labels @ [''passed'']), real_of_int (passed_rules r)),
      ((''scap_rules_by_status'', labels @ [''failed'']), real_of_int (failed_rules r)),
      ((''scap_rules_by_status'', labels @ [''error'']), real_of_int (error_rules r)),
      ((''scap_rules_by_status'', labels @ [''unknown'']), real_of_int (unknown_rules r)),
      ((''scap_rules_by_status'', labels @ [''notapplicable'']),
         real_of_int (notapplicable_rules r)),
      ((''scap_rules_by_status'', labels @ [''notchecked'']),
         real_of_int (notchecked_rules r)),
      ((''scap_rules_by_status'', labels @ [''informational'']),
         real_of_int (informational_rules r)),
      ((''scap_failed_rules_by_severity'', labels @ [''high'']),
         real_of_int (severity_high_failed r)),
      ((''scap_failed_rules_by_severity'', labels @ [''medium'']),
         real_of_int (severity_medium_failed r)),
      ((''scap_failed_rules_by_severity'', labels @ [''low'']),
         real_of_int (severity_low_failed r)),
      ((''scap_failed_rules_by_severity'', labels @ [''info'']),
         real_of_int (severity_info_failed r))])"

text \<open>
  \<^verbatim>\<open>update_metrics\<close>. \<open>isoformat\<close> is
  \<^verbatim>\<open>datetime.fromtimestamp(t).isoformat()\<close>, with the exception it raises for a
  timestamp out of the range of the platform (OverflowError, OSError or ValueError).
  In line 343 \<^verbatim>\<open>self.scan_info.labels(...)\<close> is evaluated before the argument of
  \<^verbatim>\<open>info\<close>: the child of the info metric exists by then, with no pair if it is
  new. On the exception the gauges are set and that child is there, and neither the
  pairs of the info metric nor \<^verbatim>\<open>latest_results\<close> are written. The first component of
  the value is the exception that leaves the method, if any.
\<close>

definition update_metrics ::
  "(real \<Rightarrow> py_error + string) \<Rightarrow> PrometheusExporter \<Rightarrow> SCAPResult
     \<Rightarrow> py_error option \<times> PrometheusExporter" where
  "update_metrics isoformat exporter r =
    (let reg = exporter_registry exporter;
         reg1 = reg\<lparr>gauges := fold (\<lambda>kv g. g(fst kv \<mapsto> snd kv)) (gauge_samples r) (gauges reg)\<rparr>;
         child = (''scap_scan'', [py_str (hostname r), profile r]);
         reg2 = (case infos reg1 child of
                   None \<Rightarrow> reg1\<lparr>infos := (infos reg1)(child \<mapsto> [])\<rparr>
                 | Some pairs \<Rightarrow> reg1)
     in case isoformat (scan_time r) of
          Inl e \<Rightarrow> (Some e, exporter\<lparr>exporter_registry := reg2\<rparr>)
        | Inr stamp \<Rightarrow>
           (None,
            exporter\<lparr>exporter_registry :=
                reg2\<lparr>infos := (infos reg2)(child \<mapsto>
                   [(''benchmark_id'', benchmark_id r),
                    (''benchmark_version'', benchmark_version r),
                    (''scan_time'', stamp)])\<rparr>,
              latest_results := AList.update (result_key r) r (latest_results exporter)\<rparr>))"

section \<open>The HTTP handlers\<close>

text \<open>
  What a handler sends back. The page of \<^verbatim>\<open>send_error\<close> and the JSON text of
  \<^verbatim>\<open>json.dumps\<close> are composed by the standard library: the body names them.
\<close>

datatype http_body =
  Bytes string | Json_results "(string \<times> SCAPResult) list" | Error_page

record http_response =
  status :: nat
  content_type :: string
  body :: http_body

definition send_error :: "nat \<Rightarrow> http_response" where
  "send_error code =
    \<lparr>status = code, content_type = ''text/html;charset=utf-8'', body = Error_page\<rparr>"

definition quoted :: "string \<Rightarrow> string" where
  "quoted s = [CHR 0x22] @ s @ [CHR 0x22]"

text \<open>
  \<^verbatim>\<open>MetricsHTTPHandler.do_GET\<close> of the exporter. \<open>generate_latest\<close> is the text
  exposition of the client library, which may raise.
\<close>

definition do_GET ::
  "(registry \<Rightarrow> py_error + string) \<Rightarrow> PrometheusExporter \<Rightarrow> string \<Rightarrow> http_response" where
  "do_GET generate_latest exporter path =
    (if path = ''/metrics'' then
       (case generate_latest (exporter_registry exporter) of
          Inr metrics_output \<Rightarrow>
            \<lparr>status = 200, content_type = ''text/plain; charset=utf-8'',
             body = Bytes metrics_output\<rparr>
        | Inl e \<Rightarrow> send_error 500)
     else if path = ''/health'' then
       \<lparr>status = 200, content_type = ''application/json'',
        body = Bytes (''{'' @ quoted ''status'' @ '': '' @ quoted ''healthy'' @ ''}'')\<rparr>
     else if path = ''/results'' then
       \<lparr>status = 200, content_type = ''application/json'',
        body = Json_results (latest_results exporter)\<rparr>
     else send_error 404)"

text \<open>
  \<^verbatim>\<open>MetricsHandler.do_GET\<close> of \<^verbatim>\<open>metrics_server.py\<close>, on the module's global
  \<^verbatim>\<open>exporter\<close>, which is None until \<^verbatim>\<open>main\<close> has created the exporter. An exporter
  object is always true in \<^verbatim>\<open>if exporter\<close>.
\<close>

definition server_do_GET ::
  "(registry \<Rightarrow> py_error + string) \<Rightarrow> PrometheusExporter option \<Rightarrow> string \<Rightarrow> http_response"
  where
  "server_do_GET generate_latest exporter_global path =
    (if path = ''/metrics'' then
       (case exporter_global of
          Some exporter \<Rightarrow>
            (case generate_latest (exporter_registry exporter) of
               Inr metrics_output \<Rightarrow>
                 \<lparr>status = 200, content_type = ''text/plain; charset=utf-8'',
                  body = Bytes metrics_output\<rparr>
             | Inl e \<Rightarrow> send_error 500)
        | None \<Rightarrow> send_error 503)
     else if path = ''/health'' then
       \<lparr>status = 200, content_type = ''application/json'',
        body = Bytes (''{'' @ quoted ''status'' @ '': '' @ quoted ''healthy'' @ '', ''
                       @ quoted ''metrics'' @ '': '' @ quoted ''available'' @ ''}'')\<rparr>
     else send_error 404)"

section \<open>SCAPScanner.scan and the scan cycle\<close>

text \<open>
  The operating system as \<^verbatim>\<open>scan\<close> uses it: \<open>mkstemp\<close> is the path of the
  temporary file \<^verbatim>\<open>tempfile.mkstemp\<close> has created (or its exception), \<open>glob\<close> the
  listing \<^verbatim>\<open>Path(dir).glob('ssg-*.xml')\<close>, and \<open>subprocess_run\<close> the run of a
  command: what it does to the files, and its completion or its exception
  (TimeoutExpired among them).
\<close>

datatype run_result = CompletedProcess (returncode: int) (stderr: string) | Raised py_error

record os_calls =
  mkstemp :: "py_error + string"
  glob :: "string \<Rightarrow> string list"
  subprocess_run :: "string list \<Rightarrow> filesystem \<Rightarrow> run_result \<times> filesystem"

record scanner_config =
  oscap_binary :: string
  content_dir :: string

text \<open>Lines 210 to 217: the content file, None when the directory has none.\<close>

definition resolve_content_file ::
  "scanner_config \<Rightarrow> os_calls \<Rightarrow> string option \<Rightarrow> string option" where
  "resolve_content_file cfg os content_file =
    (if content_file = None \<or> content_file = Some [] then
       (case glob os (content_dir cfg) of [] \<Rightarrow> None | f # fs \<Rightarrow> Some f)
     else content_file)"

text \<open>Lines 219 to 231: the command line.\<close>

definition oscap_cmd ::
  "scanner_config \<Rightarrow> string \<Rightarrow> string \<Rightarrow> string option \<Rightarrow> string \<Rightarrow> string list" where
  "oscap_cmd cfg profile_name results_file target content_file =
    [oscap_binary cfg, ''xccdf'', ''eval'', ''--profile'', profile_name,
     ''--results'', results_file]
    @ (case target of
         None \<Rightarrow> []
       | Some t \<Rightarrow> if t = [] then [] else [''--target'', t])
    @ [content_file]"

text \<open>
  \<^verbatim>\<open>scan\<close>, on the files: the path it returns (or None) and the files after it. The
  new temporary file is empty, so not well-formed XML. \<^verbatim>\<open>os.unlink\<close> of a file that
  is not there raises, and the handler returns None all the same.
\<close>

definition scan ::
  "scanner_config \<Rightarrow> os_calls \<Rightarrow> filesystem \<Rightarrow> string \<Rightarrow> string option \<Rightarrow> string option
     \<Rightarrow> string option \<times> filesystem" where
  "scan cfg os fs profile_name content_file target =
    (case mkstemp os of
       Inl e \<Rightarrow> (None, fs)
     | Inr results_file \<Rightarrow>
        (let fs1 = fs(results_file \<mapsto> Malformed) in
         case resolve_content_file cfg os content_file of
           None \<Rightarrow> (None, fs1)
         | Some cf \<Rightarrow>
            (case subprocess_run os (oscap_cmd cfg profile_name results_file target cf) fs1 of
               (Raised e, fs2) \<Rightarrow> (None, fs2)
             | (CompletedProcess rc err, fs2) \<Rightarrow>
                 if rc > 2 then
                   (case fs2 results_file of
                      None \<Rightarrow> (None, fs2)
                    | Some content \<Rightarrow> (None, fs2(results_file := None)))
                 else (Some results_file, fs2))))"

text \<open>
  \<^verbatim>\<open>SCAPExporterDaemon.scan_and_update\<close>, on the files and the exporter.
  \<open>hostname_cfg\<close> is the value of
  \<^verbatim>\<open>self.config.get('hostname', os.uname().nodename)\<close>. Every exception ends the
  cycle in the handler of line 438; an exception of \<^verbatim>\<open>update_metrics\<close> leaves the
  gauges it has set.
\<close>

definition scan_and_update ::
  "py_runtime \<Rightarrow> (real \<Rightarrow> py_error + string) \<Rightarrow> scanner_config \<Rightarrow> os_calls \<Rightarrow> string option
     \<Rightarrow> real \<Rightarrow> filesystem \<times> PrometheusExporter \<Rightarrow> string \<Rightarrow> string option
     \<Rightarrow> filesystem \<times> PrometheusExporter" where
  "scan_and_update rt isoformat cfg os hostname_cfg now st profile_name content_file =
    (case scan cfg os (fst st) profile_name content_file None of
       (None, fs1) \<Rightarrow> (fs1, snd st)
     | (Some results_file, fs1) \<Rightarrow>
        if results_file = [] then (fs1, snd st)
        else
          (let parsed = parse_results rt fs1 results_file hostname_cfg now in
           case fs1 results_file of
             None \<Rightarrow> (fs1, snd st)
           | Some content \<Rightarrow>
              (let fs2 = fs1(results_file := None) in
               case parsed of
                 None \<Rightarrow> (fs2, snd st)
               | Some r \<Rightarrow> (fs2, snd (update_metrics isoformat (snd st) r)))))"

section \<open>Concrete inputs of the exporter and the scanner\<close>

text \<open>
  The default scanner configuration, and an operating system in which the scanner
  writes a one-rule test result to the file named after \<^verbatim>\<open>--results\<close> and exits
  with the code \<open>rc\<close>.
\<close>

definition sample_config :: scanner_config where
  "sample_config = \<lparr>oscap_binary = ''oscap'', content_dir = ''/usr/share/xml/scap/ssg/content''\<rparr>"

definition sample_os :: "int \<Rightarrow> os_calls" where
  "sample_os rc =
    \<lparr>mkstemp = Inr ''/tmp/scap_results_1.xml'',
     glob = (\<lambda>dir. [dir @ ''/ssg-debian-ds.xml'']),
     subprocess_run = (\<lambda>cmd fs. (CompletedProcess rc '''', fs(cmd ! 6 \<mapsto> Xml one_pass_doc)))\<rparr>"

text \<open>
  Stand-ins for the two library calls of the exporter: a time formatter that knows the
  start time of the sample document, and an exposition that raises nothing.
\<close>

definition sample_isoformat :: "real \<Rightarrow> py_error + string" where
  "sample_isoformat t =
    (if t = 1704110400 then Inr ''2024-01-01T12:00:00'' else Inl OverflowError)"

definition sample_exposition :: "registry \<Rightarrow> py_error + string" where
  "sample_exposition reg = Inr ''# TYPE scap_total_rules gauge''"

text \<open>Two records of different hosts and profiles whose keys coincide.\<close>

definition host_a_b :: SCAPResult where
  "host_a_b = sample_result\<lparr>hostname := Some ''a_b'', profile := ''c''\<rparr>"

definition host_a :: SCAPResult where
  "host_a = (notselected_result 1704110400)\<lparr>hostname := Some ''a'', profile := ''b_c''\<rparr>"

section \<open>Lemmas\<close>

subsection \<open>Counting by status and by severity\<close>

lemma incr_total [simp]:
  "incr ''total_rules'' m = Inr (m\<lparr>total_rules := total_rules m + 1\<rparr>)"
  by (simp add: incr_def)

lemma cnt_simps [simp]:
  "cnt P [] = 0"
  "cnt P (x # xs) = (if P x then 1 else 0) + cnt P xs"
  "cnt P (xs @ ys) = cnt P xs + cnt P ys"
  by (simp_all add: cnt_def)

lemma count_status_eq:
  "count_status s m =
    (if s = ''pass'' then Inr (m\<lparr>passed_rules := passed_rules m + 1\<rparr>)
     else if s = ''fail'' then Inr (m\<lparr>failed_rules := failed_rules m + 1\<rparr>)
     else if s = ''error'' then Inr (m\<lparr>error_rules := error_rules m + 1\<rparr>)
     else if s = ''unknown'' then Inr (m\<lparr>unknown_rules := unknown_rules m + 1\<rparr>)
     else if s = ''notapplicable'' then Inr (m\<lparr>notapplicable_rules := notapplicable_rules m + 1\<rparr>)
     else if s = ''notchecked'' then Inr (m\<lparr>notchecked_rules := notchecked_rules m + 1\<rparr>)
     else if s = ''informational'' then Inr (m\<lparr>informational_rules := informational_rules m + 1\<rparr>)
     else Inr m)"
  by (simp add: count_status_def status_mapping_def incr_def)

lemma severity_key_eq:
  "''severity_'' @ sev @ ''_failed'' = ''severity_'' @ k @ ''_failed'' \<longleftrightarrow> sev = k"
  by simp

lemma severity_key_in_metrics:
  "''severity_'' @ sev @ ''_failed'' \<in> set metrics_keys \<longleftrightarrow>
     sev = ''high'' \<or> sev = ''medium'' \<or> sev = ''low'' \<or> sev = ''info''"
proof -
  have k: "''severity_high_failed'' = ''severity_'' @ ''high'' @ ''_failed''"
    "''severity_medium_failed'' = ''severity_'' @ ''medium'' @ ''_failed''"
    "''severity_low_failed'' = ''severity_'' @ ''low'' @ ''_failed''"
    "''severity_info_failed'' = ''severity_'' @ ''info'' @ ''_failed''"
    by simp_all
  have "''severity_'' @ sev @ ''_failed'' \<in> set metrics_keys \<longleftrightarrow>
     ''severity_'' @ sev @ ''_failed'' = ''severity_high_failed'' \<or>
     ''severity_'' @ sev @ ''_failed'' = ''severity_medium_failed'' \<or>
     ''severity_'' @ sev @ ''_failed'' = ''severity_low_failed'' \<or>
     ''severity_'' @ sev @ ''_failed'' = ''severity_info_failed''"
    by (simp add: metrics_keys_def)
  also have "\<dots> \<longleftrightarrow> sev = ''high'' \<or> sev = ''medium'' \<or> sev = ''low'' \<or> sev = ''info''"
    unfolding k severity_key_eq ..
  finally show ?thesis .
qed

lemma incr_severity_key:
  "incr (''severity_'' @ ''high'' @ ''_failed'') m = Inr (m\<lparr>severity_high_failed := severity_high_failed m + 1\<rparr>)"
  "incr (''severity_'' @ ''medium'' @ ''_failed'') m = Inr (m\<lparr>severity_medium_failed := severity_medium_failed m + 1\<rparr>)"
  "incr (''severity_'' @ ''low'' @ ''_failed'') m = Inr (m\<lparr>severity_low_failed := severity_low_failed m + 1\<rparr>)"
  "incr (''severity_'' @ ''info'' @ ''_failed'') m = Inr (m\<lparr>severity_info_failed := severity_info_failed m + 1\<rparr>)"
  by (simp_all add: incr_def)

lemma count_severity_eq:
  "count_severity s sev m =
    (if s = ''fail'' \<and> sev = ''high'' then Inr (m\<lparr>severity_high_failed := severity_high_failed m + 1\<rparr>)
     else if s = ''fail'' \<and> sev = ''medium'' then Inr (m\<lparr>severity_medium_failed := severity_medium_failed m + 1\<rparr>)
     else if s = ''fail'' \<and> sev = ''low'' then Inr (m\<lparr>severity_low_failed := severity_low_failed m + 1\<rparr>)
     else if s = ''fail'' \<and> sev = ''info'' then Inr (m\<lparr>severity_info_failed := severity_info_failed m + 1\<rparr>)
     else Inr m)"
proof (cases "s = ''fail''")
  case False
  then show ?thesis by (simp add: count_severity_def)
next
  case True
  consider "sev = ''high''" | "sev = ''medium''" | "sev = ''low''" | "sev = ''info''"
    | "\<not> (sev = ''high'' \<or> sev = ''medium'' \<or> sev = ''low'' \<or> sev = ''info'')"
    by blast
  then show ?thesis
  proof cases
    case 5
    then show ?thesis
      using True severity_key_in_metrics [of sev] by (simp add: count_severity_def Let_def)
  qed (use True severity_key_in_metrics incr_severity_key in \<open>simp_all add: count_severity_def Let_def del: append.simps\<close>)
qed

lemma count_status_counted:
  assumes "count_status s m = Inr m2"
  shows "passed_rules m2 = passed_rules m + (if s = ''pass'' then 1 else 0)"
    and "failed_rules m2 = failed_rules m + (if s = ''fail'' then 1 else 0)"
    and "error_rules m2 = error_rules m + (if s = ''error'' then 1 else 0)"
    and "unknown_rules m2 = unknown_rules m + (if s = ''unknown'' then 1 else 0)"
    and "notapplicable_rules m2 = notapplicable_rules m + (if s = ''notapplicable'' then 1 else 0)"
    and "notchecked_rules m2 = notchecked_rules m + (if s = ''notchecked'' then 1 else 0)"
    and "informational_rules m2 = informational_rules m + (if s = ''informational'' then 1 else 0)"
    and "total_rules m2 = total_rules m"
    and "severity_high_failed m2 = severity_high_failed m"
    and "severity_medium_failed m2 = severity_medium_failed m"
    and "severity_low_failed m2 = severity_low_failed m"
    and "severity_info_failed m2 = severity_info_failed m"
  using assms by (auto simp: count_status_eq split: if_splits)

lemma count_severity_counted:
  assumes "count_severity s sev m = Inr m3"
  shows "severity_high_failed m3 = severity_high_failed m + (if s = ''fail'' \<and> sev = ''high'' then 1 else 0)"
    and "severity_medium_failed m3 = severity_medium_failed m + (if s = ''fail'' \<and> sev = ''medium'' then 1 else 0)"
    and "severity_low_failed m3 = severity_low_failed m + (if s = ''fail'' \<and> sev = ''low'' then 1 else 0)"
    and "severity_info_failed m3 = severity_info_failed m + (if s = ''fail'' \<and> sev = ''info'' then 1 else 0)"
    and "total_rules m3 = total_rules m"
    and "passed_rules m3 = passed_rules m"
    and "failed_rules m3 = failed_rules m"
    and "error_rules m3 = error_rules m"
    and "unknown_rules m3 = unknown_rules m"
    and "notapplicable_rules m3 = notapplicable_rules m"
    and "notchecked_rules m3 = notchecked_rules m"
    and "informational_rules m3 = informational_rules m"
  using assms by (auto simp: count_severity_eq split: if_splits)

subsection \<open>The loop over the rule-results\<close>

lemma process_rule_result_InrD:
  assumes "process_rule_result rt b rr (m, ds) = Inr (m', ds')"
  shows "(find_child (xccdf ''result'') rr = None \<and> ds' = ds
            \<and> m' = m\<lparr>total_rules := total_rules m + 1\<rparr>)
       \<or> (\<exists>e tx m2 rd.
            find_child (xccdf ''result'') rr = Some e \<and> etext e = Some tx
          \<and> count_status (str_lower rt tx) (m\<lparr>total_rules := total_rules m + 1\<rparr>) = Inr m2
          \<and> find_rule rt b (get_default rr ''idref'' '''') = Inr rd
          \<and> count_severity (str_lower rt tx) (rule_severity rt rd) m2 = Inr m'
          \<and> ds' = ds @ [\<lparr>rule_id = get_default rr ''idref'' '''',
                 title = rule_title_of rd (get_default rr ''idref'' ''''),
                 result = str_lower rt tx, severity = rule_severity rt rd\<rparr>])"
proof (cases "find_child (xccdf ''result'') rr")
  case None
  with assms show ?thesis by (simp add: process_rule_result_def)
next
  case (Some e)
  show ?thesis
  proof (cases "etext e")
    case None
    with Some assms show ?thesis by (simp add: process_rule_result_def)
  next
    case (Some tx)
    note tx = this
    show ?thesis
    proof (cases "count_status (str_lower rt tx) (m\<lparr>total_rules := total_rules m + 1\<rparr>)")
      case (Inl a)
      with tx \<open>find_child (xccdf ''result'') rr = Some e\<close> assms show ?thesis
        by (simp add: process_rule_result_def)
    next
      case (Inr m2)
      note m2 = this
      show ?thesis
      proof (cases "find_rule rt b (get_default rr ''idref'' '''')")
        case (Inl a)
        with m2 tx \<open>find_child (xccdf ''result'') rr = Some e\<close> assms show ?thesis
          by (simp add: process_rule_result_def)
      next
        case (Inr rd)
        with m2 tx \<open>find_child (xccdf ''result'') rr = Some e\<close> assms show ?thesis
          by (cases "count_severity (str_lower rt tx) (rule_severity rt rd) m2")
             (simp_all add: process_rule_result_def Let_def)
      qed
    qed
  qed
qed

lemma process_rule_result_counted:
  assumes "process_rule_result rt b rr (m, ds) = Inr (m', ds')"
  shows "\<exists>new. ds' = ds @ new \<and> counted m new m'
           \<and> total_rules m' = total_rules m + 1
           \<and> map result new = (case result_status_of rt rr of None \<Rightarrow> [] | Some s \<Rightarrow> [s])
           \<and> length new = (if find_child (xccdf ''result'') rr = None then 0 else 1)"
proof -
  from process_rule_result_InrD [OF assms]
  show ?thesis
  proof (elim disjE conjE exE)
    assume "find_child (xccdf ''result'') rr = None" "ds' = ds"
      "m' = m\<lparr>total_rules := total_rules m + 1\<rparr>"
    then show ?thesis
      by (intro exI [of _ "[]"]) (simp add: counted_def result_status_of_def)
  next
    fix e tx m2 rd
    assume h: "find_child (xccdf ''result'') rr = Some e" "etext e = Some tx"
      and cs: "count_status (str_lower rt tx) (m\<lparr>total_rules := total_rules m + 1\<rparr>) = Inr m2"
      and cv: "count_severity (str_lower rt tx) (rule_severity rt rd) m2 = Inr m'"
      and ds: "ds' = ds @ [\<lparr>rule_id = get_default rr ''idref'' '''',
                 title = rule_title_of rd (get_default rr ''idref'' ''''),
                 result = str_lower rt tx, severity = rule_severity rt rd\<rparr>]"
    let ?d = "\<lparr>rule_id = get_default rr ''idref'' '''',
                 title = rule_title_of rd (get_default rr ''idref'' ''''),
                 result = str_lower rt tx, severity = rule_severity rt rd\<rparr>"
    have "counted m [?d] m'"
      unfolding counted_def
      by (intro conjI)
         (simp_all add: count_status_counted [OF cs] count_severity_counted [OF cv])
    moreover have "total_rules m' = total_rules m + 1"
      by (simp add: count_status_counted [OF cs] count_severity_counted [OF cv])
    ultimately show ?thesis
      using h ds by (intro exI [of _ "[?d]"]) (simp add: result_status_of_def)
  qed
qed

lemma counted_refl: "counted m [] m"
  by (simp add: counted_def)

lemma counted_trans: "counted m xs m2 \<Longrightarrow> counted m2 ys m3 \<Longrightarrow> counted m (xs @ ys) m3"
  unfolding counted_def by (elim conjE, intro conjI) simp_all

lemma process_rule_results_counted:
  "process_rule_results rt b rrs (m, ds) = Inr (m', ds') \<Longrightarrow>
     \<exists>new. ds' = ds @ new \<and> counted m new m'
        \<and> total_rules m' = total_rules m + int (length rrs)
        \<and> map result new = concat (map (status_list rt) rrs)
        \<and> length new = length (filter (\<lambda>rr. find_child (xccdf ''result'') rr \<noteq> None) rrs)"
proof (induction rrs arbitrary: m ds)
  case Nil
  then show ?case by (simp add: counted_refl)
next
  case (Cons rr rrs)
  from Cons.prems obtain st1 where
    s0: "process_rule_result rt b rr (m, ds) = Inr st1"
    and r0: "process_rule_results rt b rrs st1 = Inr (m', ds')"
    by (cases "process_rule_result rt b rr (m, ds)") simp_all
  obtain m1 ds1 where st1: "st1 = (m1, ds1)" by (cases st1)
  note s = s0 [unfolded st1] and r = r0 [unfolded st1]
  from process_rule_result_counted [OF s] obtain n1 where
    n1: "ds1 = ds @ n1" "counted m n1 m1" "total_rules m1 = total_rules m + 1"
      "map result n1 = status_list rt rr"
      "length n1 = (if find_child (xccdf ''result'') rr = None then 0 else 1)"
    unfolding status_list_def by (elim exE conjE)
  from Cons.IH [OF r] obtain n2 where
    n2: "ds' = ds1 @ n2" "counted m1 n2 m'"
      "total_rules m' = total_rules m1 + int (length rrs)"
      "map result n2 = concat (map (status_list rt) rrs)"
      "length n2 = length (filter (\<lambda>rr. find_child (xccdf ''result'') rr \<noteq> None) rrs)"
    by (elim exE conjE)
  note len1 = n1(5)
  have "ds' = ds @ (n1 @ n2)"
    using n1(1) n2(1) by simp
  moreover have "counted m (n1 @ n2) m'"
    by (rule counted_trans [OF n1(2) n2(2)])
  moreover have "total_rules m' = total_rules m + int (length (rr # rrs))"
    using n1(3) n2(3) by simp
  moreover have "map result (n1 @ n2) = concat (map (status_list rt) (rr # rrs))"
    using n1(4) n2(4) by simp
  moreover have "length (n1 @ n2)
      = length (filter (\<lambda>rr. find_child (xccdf ''result'') rr \<noteq> None) (rr # rrs))"
    using len1 n2(5) by simp
  ultimately show ?case
    by (intro exI [of _ "n1 @ n2"] conjI)
qed

subsection \<open>A successful parse\<close>

lemma parse_results_SomeD:
  assumes "parse_results rt fs f h now = Some r"
  obtains doc b tr m ds where
    "ET_parse fs f = Inr doc"
    "find_descendant (xccdf ''Benchmark'') doc = Some b"
    "locate_test_result doc = Some tr"
    "process_rule_results rt b (findall_children (xccdf ''rule-result'') tr)
       (metrics_init, []) = Inr (m, ds)"
    "r = metrics.extend m
       \<lparr>hostname = target_hostname tr h,
        profile = (case find_child (xccdf ''profile'') tr of
                     None \<Rightarrow> ''unknown''
                   | Some profile_elem \<Rightarrow> get_default profile_elem ''idref'' ''unknown''),
        scan_time = scan_time_of rt tr now,
        compliance_score = compliance m,
        benchmark_id = get_default b ''id'' ''unknown'',
        benchmark_version = get_default b ''version'' ''unknown'',
        rule_details = ds\<rparr>"
proof -
  from assms obtain doc where doc: "ET_parse fs f = Inr doc"
    by (cases "ET_parse fs f") (simp_all add: parse_results_def parse_results_try_def)
  from assms doc obtain b where b: "find_descendant (xccdf ''Benchmark'') doc = Some b"
    by (cases "find_descendant (xccdf ''Benchmark'') doc")
       (simp_all add: parse_results_def parse_results_try_def)
  from assms doc b obtain tr where tr: "locate_test_result doc = Some tr"
    by (cases "locate_test_result doc")
       (simp_all add: parse_results_def parse_results_try_def)
  from assms doc b tr obtain st where
    st: "process_rule_results rt b (findall_children (xccdf ''rule-result'') tr)
       (metrics_init, []) = Inr st"
    by (cases "process_rule_results rt b (findall_children (xccdf ''rule-result'') tr)
       (metrics_init, [])")
       (simp_all add: parse_results_def parse_results_try_def Let_def)
  obtain m ds where mds: "st = (m, ds)" by (cases st)
  from assms doc b tr st mds have "r = metrics.extend m
       \<lparr>hostname = target_hostname tr h,
        profile = (case find_child (xccdf ''profile'') tr of
                     None \<Rightarrow> ''unknown''
                   | Some profile_elem \<Rightarrow> get_default profile_elem ''idref'' ''unknown''),
        scan_time = scan_time_of rt tr now,
        compliance_score = compliance m,
        benchmark_id = get_default b ''id'' ''unknown'',
        benchmark_version = get_default b ''version'' ''unknown'',
        rule_details = ds\<rparr>"
    by (simp add: parse_results_def parse_results_try_def Let_def)
  with doc b tr st mds that show thesis by blast
qed

lemma extend_fields [simp]:
  "total_rules (metrics.extend m x) = total_rules m"
  "passed_rules (metrics.extend m x) = passed_rules m"
  "failed_rules (metrics.extend m x) = failed_rules m"
  "error_rules (metrics.extend m x) = error_rules m"
  "unknown_rules (metrics.extend m x) = unknown_rules m"
  "notapplicable_rules (metrics.extend m x) = notapplicable_rules m"
  "notchecked_rules (metrics.extend m x) = notchecked_rules m"
  "informational_rules (metrics.extend m x) = informational_rules m"
  "severity_high_failed (metrics.extend m x) = severity_high_failed m"
  "severity_medium_failed (metrics.extend m x) = severity_medium_failed m"
  "severity_low_failed (metrics.extend m x) = severity_low_failed m"
  "severity_info_failed (metrics.extend m x) = severity_info_failed m"
  by (simp_all add: metrics.defs)

lemma extend_more [simp]:
  "metrics.more (metrics.extend m x) = x"
  by (simp add: metrics.defs)

lemma known_status_iff:
  "known_status s \<longleftrightarrow> s = ''pass'' \<or> s = ''fail'' \<or> s = ''error'' \<or> s = ''unknown''
     \<or> s = ''notapplicable'' \<or> s = ''notchecked'' \<or> s = ''informational''"
  by (simp add: known_status_def status_mapping_def)

lemma cnt_nonneg: "0 \<le> cnt P xs"
  by (simp add: cnt_def)

lemma cnt_le_length: "cnt P xs \<le> int (length xs)"
  by (simp add: cnt_def)

lemma cnt_status_sum:
  "cnt (\<lambda>d. result d = ''pass'') ds + cnt (\<lambda>d. result d = ''fail'') ds
   + cnt (\<lambda>d. result d = ''error'') ds + cnt (\<lambda>d. result d = ''unknown'') ds
   + cnt (\<lambda>d. result d = ''notapplicable'') ds + cnt (\<lambda>d. result d = ''notchecked'') ds
   + cnt (\<lambda>d. result d = ''informational'') ds
   = cnt (\<lambda>d. known_status (result d)) ds"
proof (induction ds)
  case Nil
  show ?case by simp
next
  case (Cons d ds)
  consider "result d = ''pass''" | "result d = ''fail''" | "result d = ''error''"
    | "result d = ''unknown''" | "result d = ''notapplicable''" | "result d = ''notchecked''"
    | "result d = ''informational''" | "\<not> known_status (result d)"
    unfolding known_status_iff by blast
  then show ?case
  proof cases
    case 8
    then have "result d \<noteq> ''pass''" "result d \<noteq> ''fail''" "result d \<noteq> ''error''"
      "result d \<noteq> ''unknown''" "result d \<noteq> ''notapplicable''" "result d \<noteq> ''notchecked''"
      "result d \<noteq> ''informational''"
      unfolding known_status_iff by simp_all
    with 8 Cons.IH show ?thesis by simp
  qed (use Cons.IH in \<open>simp_all add: known_status_iff\<close>)
qed


lemma cnt_map_result:
  "cnt (\<lambda>d. P (result d)) ds = int (length (filter P (map result ds)))"
  by (simp add: cnt_def filter_map comp_def)

lemma filter_status_list:
  "length (filter known_status (concat (map (status_list rt) rrs)))
     = length (filter (recognised rt) rrs)"
  by (induction rrs) (auto simp: status_list_def recognised_def split: option.splits)

lemma length_filter_all:
  "length (filter P xs) = length xs \<longleftrightarrow> (\<forall>x\<in>set xs. P x)"
proof (induction xs)
  case Nil
  show ?case by simp
next
  case (Cons x xs)
  show ?case
  proof (cases "P x")
    case True
    with Cons show ?thesis by simp
  next
    case False
    have "length (filter P xs) \<noteq> Suc (length xs)"
      using length_filter_le [of P xs] by linarith
    with False show ?thesis by simp
  qed
qed

text \<open>The counters of a successful parse, read off the document and the detail list.\<close>

lemma parse_results_counters:
  assumes "parse_results rt fs f h now = Some r" and "ET_parse fs f = Inr doc"
  shows "total_rules r = int (length (rule_results_of doc))"
    and "counted metrics_init (rule_details r) r"
    and "map result (rule_details r) = concat (map (status_list rt) (rule_results_of doc))"
    and "length (rule_details r)
          = length (filter (\<lambda>rr. find_child (xccdf ''result'') rr \<noteq> None) (rule_results_of doc))"
    and "compliance_score r = compliance (metrics.truncate r)"
proof -
  from assms(1) obtain doc' b tr m ds where
    p: "ET_parse fs f = Inr doc'"
      "locate_test_result doc' = Some tr"
      "process_rule_results rt b (findall_children (xccdf ''rule-result'') tr)
         (metrics_init, []) = Inr (m, ds)"
    and r: "r = metrics.extend m
       \<lparr>hostname = target_hostname tr h,
        profile = (case find_child (xccdf ''profile'') tr of
                     None \<Rightarrow> ''unknown''
                   | Some profile_elem \<Rightarrow> get_default profile_elem ''idref'' ''unknown''),
        scan_time = scan_time_of rt tr now,
        compliance_score = compliance m,
        benchmark_id = get_default b ''id'' ''unknown'',
        benchmark_version = get_default b ''version'' ''unknown'',
        rule_details = ds\<rparr>"
    by (rule parse_results_SomeD)
  from p(1) assms(2) have doc: "doc' = doc" by simp
  have rrs: "rule_results_of doc = findall_children (xccdf ''rule-result'') tr"
    using p(2) doc by (simp add: rule_results_of_def)
  have t: "metrics.truncate r = m" and d: "rule_details r = ds"
    and c: "compliance_score r = compliance m" and tot: "total_rules r = total_rules m"
    unfolding r by (simp_all add: metrics.defs)
  from process_rule_results_counted [OF p(3)] obtain new where
    n: "ds = [] @ new" "counted metrics_init new m"
      "total_rules m = total_rules metrics_init
         + int (length (findall_children (xccdf ''rule-result'') tr))"
      "map result new
         = concat (map (status_list rt) (findall_children (xccdf ''rule-result'') tr))"
      "length new = length (filter (\<lambda>rr. find_child (xccdf ''result'') rr \<noteq> None)
                      (findall_children (xccdf ''rule-result'') tr))"
    by (elim exE conjE)
  show "total_rules r = int (length (rule_results_of doc))"
    using n(3) tot rrs by (simp add: metrics_init_def)
  show "counted metrics_init (rule_details r) r"
    using n(1,2) d unfolding counted_def r by simp
  show "map result (rule_details r) = concat (map (status_list rt) (rule_results_of doc))"
    using n(1,4) d rrs by simp
  show "length (rule_details r)
          = length (filter (\<lambda>rr. find_child (xccdf ''result'') rr \<noteq> None) (rule_results_of doc))"
    using n(1,5) d rrs by simp
  show "compliance_score r = compliance (metrics.truncate r)"
    using c t by simp
qed

subsection \<open>The parser on the concrete documents\<close>

lemmas eval_defs = parse_results_def parse_results_try_def ET_parse_def
  sample_rule_def sample_rule_result_def
  sample_runtime_def ascii_lower_def find_descendant_def descendants_def find_child_def
  findall_children_def xccdf_def locate_test_result_def process_rule_result_def
  count_status_def count_severity_def status_mapping_def metrics_keys_def incr_def
  find_rule_def get_attr_def get_default_def rule_severity_def rule_title_of_def
  metrics_init_def compliance_def target_hostname_def scan_time_of_def start_time_def
  replace_Z_def metrics.defs Let_def

lemma sample_parse:
  "parse_results sample_runtime sample_fs ''sample_scap_results.xml'' hostname_arg now
     = Some sample_result"
  by (simp add: eval_defs sample_result_def sample_fs_def sample_scap_results_def
        sample_benchmark_def)

lemma sample_ET_parse:
  "ET_parse sample_fs ''sample_scap_results.xml'' = Inr sample_scap_results"
  by (simp add: ET_parse_def sample_fs_def)

lemma notselected_parse:
  "parse_results sample_runtime notselected_fs ''results.xml'' None now
     = Some (notselected_result now)"
  by (simp add: eval_defs notselected_fs_def notselected_doc_def small_benchmark_def
        small_rules_def notselected_result_def)

lemma notselected_ET_parse:
  "ET_parse notselected_fs ''results.xml'' = Inr notselected_doc"
  by (simp add: ET_parse_def notselected_fs_def)

subsection \<open>Bounds on the counters\<close>

lemma status_sum_eq:
  assumes "counted metrics_init ds r"
  shows "passed_rules r + failed_rules r + error_rules r + unknown_rules r
          + notapplicable_rules r + notchecked_rules r + informational_rules r
         = cnt (\<lambda>d. known_status (result d)) ds"
proof -
  from assms have
    "passed_rules r = cnt (\<lambda>d. result d = ''pass'') ds"
    "failed_rules r = cnt (\<lambda>d. result d = ''fail'') ds"
    "error_rules r = cnt (\<lambda>d. result d = ''error'') ds"
    "unknown_rules r = cnt (\<lambda>d. result d = ''unknown'') ds"
    "notapplicable_rules r = cnt (\<lambda>d. result d = ''notapplicable'') ds"
    "notchecked_rules r = cnt (\<lambda>d. result d = ''notchecked'') ds"
    "informational_rules r = cnt (\<lambda>d. result d = ''informational'') ds"
    by (simp_all add: counted_def metrics_init_def)
  then show ?thesis
    using cnt_status_sum [of ds] by simp
qed

lemma parse_results_bounds:
  assumes "parse_results rt fs xml_file hostname_arg now = Some r"
    and "ET_parse fs xml_file = Inr doc"
  shows "0 \<le> passed_rules r" and "0 \<le> notapplicable_rules r" and "0 \<le> notchecked_rules r"
    and "passed_rules r + notapplicable_rules r + notchecked_rules r \<le> total_rules r"
proof -
  note c = parse_results_counters [OF assms]
  from c(2) have f:
    "passed_rules r = cnt (\<lambda>d. result d = ''pass'') (rule_details r)"
    "failed_rules r = cnt (\<lambda>d. result d = ''fail'') (rule_details r)"
    "error_rules r = cnt (\<lambda>d. result d = ''error'') (rule_details r)"
    "unknown_rules r = cnt (\<lambda>d. result d = ''unknown'') (rule_details r)"
    "notapplicable_rules r = cnt (\<lambda>d. result d = ''notapplicable'') (rule_details r)"
    "notchecked_rules r = cnt (\<lambda>d. result d = ''notchecked'') (rule_details r)"
    "informational_rules r = cnt (\<lambda>d. result d = ''informational'') (rule_details r)"
    by (simp_all add: counted_def metrics_init_def)
  show "0 \<le> passed_rules r" "0 \<le> notapplicable_rules r" "0 \<le> notchecked_rules r"
    unfolding f by (rule cnt_nonneg)+
  have nn: "0 \<le> failed_rules r" "0 \<le> error_rules r" "0 \<le> unknown_rules r"
    "0 \<le> informational_rules r"
    unfolding f by (rule cnt_nonneg)+
  have "passed_rules r + failed_rules r + error_rules r + unknown_rules r
          + notapplicable_rules r + notchecked_rules r + informational_rules r
        \<le> int (length (rule_details r))"
    unfolding status_sum_eq [OF c(2)] by (rule cnt_le_length)
  also have "\<dots> \<le> total_rules r"
    unfolding c(1) c(4) by simp
  finally show "passed_rules r + notapplicable_rules r + notchecked_rules r \<le> total_rules r"
    using nn by linarith
qed

lemma percent_bounds:
  fixes p a :: int
  assumes "0 \<le> p" and "p \<le> a" and "0 < a"
  shows "0 \<le> real_of_int p / real_of_int a * 100"
    and "real_of_int p / real_of_int a * 100 \<le> 100"
  using assms by (simp_all add: field_simps)

lemma process_rule_result_unknown_status:
  assumes "result_status_of rt rr = Some s" and "\<not> known_status s"
    and "find_rule rt b (get_default rr ''idref'' '''') = Inr rd"
  shows "process_rule_result rt b rr (m, ds)
          = Inr (m\<lparr>total_rules := total_rules m + 1\<rparr>,
                 ds @ [\<lparr>rule_id = get_default rr ''idref'' '''',
                        title = rule_title_of rd (get_default rr ''idref'' ''''),
                        result = s, severity = rule_severity rt rd\<rparr>])"
proof -
  from assms(1) obtain e tx where
    e: "find_child (xccdf ''result'') rr = Some e" "etext e = Some tx" "s = str_lower rt tx"
    by (auto simp: result_status_of_def split: option.splits)
  from assms(2) have ns: "s \<noteq> ''pass''" "s \<noteq> ''fail''" "s \<noteq> ''error''" "s \<noteq> ''unknown''"
    "s \<noteq> ''notapplicable''" "s \<noteq> ''notchecked''" "s \<noteq> ''informational''"
    unfolding known_status_iff by simp_all
  have cs: "count_status s m' = Inr m'" for m'
    using ns by (simp add: count_status_eq)
  have cv: "count_severity s sev m' = Inr m'" for sev m'
    using ns by (simp add: count_severity_eq)
  show ?thesis
    using e(1,2) assms(3) cs cv
    by (simp add: process_rule_result_def Let_def e(3) [symmetric])
qed

subsection \<open>Documents without a benchmark, start times, empty results\<close>

lemma iter_descendants: "iter e = e # descendants e"
  by (cases e) (simp add: descendants_def)

lemma find_descendant_None:
  assumes "\<forall>e \<in> set (iter doc). tag e \<noteq> t"
  shows "find_descendant t doc = None"
proof -
  from assms have "\<forall>e \<in> set (descendants doc). tag e \<noteq> t"
    by (simp add: iter_descendants)
  then show ?thesis
    by (simp add: find_descendant_def find_None_iff)
qed

lemma no_benchmark_ET_parse:
  "ET_parse no_benchmark_fs ''results.xml'' = Inr no_benchmark_doc"
  by (simp add: ET_parse_def no_benchmark_fs_def)

lemma no_benchmark_iter:
  "\<forall>e \<in> set (iter no_benchmark_doc). tag e \<noteq> xccdf ''Benchmark''"
  by (simp add: no_benchmark_doc_def sample_rule_result_def xccdf_def)

lemma parse_results_scan_time:
  "parse_results rt fs xml_file hostname_arg t2
     = map_option (\<lambda>r. r\<lparr>scan_time :=
          (case doc_start_time rt fs xml_file of None \<Rightarrow> t2 | Some t \<Rightarrow> t)\<rparr>)
        (parse_results rt fs xml_file hostname_arg t1)"
proof (cases "ET_parse fs xml_file")
  case (Inl e)
  then show ?thesis by (simp add: parse_results_def parse_results_try_def)
next
  case (Inr doc)
  note doc = this
  show ?thesis
  proof (cases "find_descendant (xccdf ''Benchmark'') doc")
    case None
    with doc show ?thesis by (simp add: parse_results_def parse_results_try_def)
  next
    case (Some b)
    note b = this
    show ?thesis
    proof (cases "locate_test_result doc")
      case None
      with doc b show ?thesis by (simp add: parse_results_def parse_results_try_def)
    next
      case (Some tr)
      note tr = this
      show ?thesis
      proof (cases "process_rule_results rt b
                      (findall_children (xccdf ''rule-result'') tr) (metrics_init, [])")
        case (Inl e)
        with doc b tr show ?thesis
          by (simp add: parse_results_def parse_results_try_def Let_def)
      next
        case (Inr st)
        obtain m ds where "st = (m, ds)" by (cases st)
        with Inr doc b tr show ?thesis
          by (simp add: parse_results_def parse_results_try_def Let_def doc_start_time_def
                scan_time_of_def metrics.defs SCAPResult.defs)
      qed
    qed
  qed
qed

lemma sample_start_time:
  "doc_start_time sample_runtime sample_fs ''sample_scap_results.xml'' = Some 1704110400"
  by (simp add: doc_start_time_def sample_ET_parse locate_test_result_def
        sample_scap_results_def xccdf_def start_time_def find_child_def sample_benchmark_def
        sample_rule_result_def replace_Z_def sample_runtime_def)

lemma notselected_start_time:
  "doc_start_time sample_runtime notselected_fs ''results.xml'' = None"
  by (simp add: doc_start_time_def notselected_ET_parse locate_test_result_def
        notselected_doc_def xccdf_def start_time_def find_child_def small_benchmark_def
        sample_rule_result_def)

lemma empty_result_ET_parse:
  "ET_parse empty_result_fs ''results.xml'' = Inr empty_result_doc"
  by (simp add: ET_parse_def empty_result_fs_def)

lemma empty_result_rule_results:
  "rule_results_of empty_result_doc
     = [sample_rule_result ''rule_a'' ''pass'',
        Element (xccdf ''rule-result'') [(''idref'', ''rule_b'')] None
          [Element (xccdf ''result'') [] None []]]"
  by (simp add: rule_results_of_def locate_test_result_def empty_result_doc_def
        findall_children_def xccdf_def small_benchmark_def sample_rule_result_def)

lemma one_pass_parse:
  "parse_results sample_runtime one_pass_fs ''results.xml'' None now
     = Some (one_pass_result now)"
  by (simp add: eval_defs one_pass_fs_def one_pass_doc_def small_benchmark_def
        small_rules_def one_pass_result_def)

lemma two_test_results_parse:
  "parse_results sample_runtime two_test_results_fs ''results.xml'' None now
     = Some (one_pass_result now)"
  by (simp add: eval_defs two_test_results_fs_def two_test_results_doc_def small_rules_def
        empty_rule_result_def one_pass_result_def)

lemma two_results_parse:
  "parse_results sample_runtime two_results_fs ''results.xml'' None now
     = Some (one_pass_result now)"
  by (simp add: eval_defs two_results_fs_def two_results_doc_def two_results_rule_def
        small_benchmark_def small_rules_def one_pass_result_def)

lemma empty_result_try:
  "parse_results_try sample_runtime empty_result_fs ''results.xml'' None 0
     = Inl AttributeError"
  by (simp add: eval_defs empty_result_fs_def empty_result_doc_def small_benchmark_def
        small_rules_def)

subsection \<open>Which exceptions the loop and the parser raise\<close>

lemma count_status_Inr: "\<exists>m2. count_status s m = Inr m2"
  by (simp add: count_status_eq)

lemma count_severity_Inr: "\<exists>m3. count_severity s sev m = Inr m3"
  by (simp add: count_severity_eq)

lemma find_rule_InlD:
  "find_rule rt b rid = Inl err \<Longrightarrow> elementpath_find rt (rule_path rid) b = Inl err"
  by (simp add: find_rule_def split: if_splits)

lemma process_rule_result_Inl_cases:
  assumes "process_rule_result rt b rr st = Inl err"
  shows "rule_result_raises rt b rr
       \<and> (err = AttributeError
          \<or> find_rule rt b (get_default rr ''idref'' '''') = Inl err)"
proof (cases "find_child (xccdf ''result'') rr")
  case None
  with assms show ?thesis by (simp add: process_rule_result_def)
next
  case (Some e)
  note e = this
  show ?thesis
  proof (cases "etext e")
    case None
    with e assms show ?thesis
      by (simp add: process_rule_result_def rule_result_raises_def)
  next
    case (Some tx)
    note tx = this
    obtain m2 where m2: "count_status (str_lower rt tx)
        (fst st\<lparr>total_rules := total_rules (fst st) + 1\<rparr>) = Inr m2"
      using count_status_Inr by blast
    show ?thesis
    proof (cases "find_rule rt b (get_default rr ''idref'' '''')")
      case (Inl a)
      with e tx m2 assms show ?thesis
        by (simp add: process_rule_result_def rule_result_raises_def Let_def)
    next
      case (Inr rd)
      obtain m3 where "count_severity (str_lower rt tx) (rule_severity rt rd) m2 = Inr m3"
        using count_severity_Inr by blast
      with Inr e tx m2 assms show ?thesis
        by (simp add: process_rule_result_def Let_def)
    qed
  qed
qed

lemma process_rule_result_raises:
  assumes "rule_result_raises rt b rr"
  shows "\<exists>err. process_rule_result rt b rr st = Inl err"
proof -
  from assms obtain e where e: "find_child (xccdf ''result'') rr = Some e"
    by (cases "find_child (xccdf ''result'') rr") (simp_all add: rule_result_raises_def)
  show ?thesis
  proof (cases "etext e")
    case None
    with e show ?thesis by (simp add: process_rule_result_def)
  next
    case (Some tx)
    obtain m2 where m2: "count_status (str_lower rt tx)
        (fst st\<lparr>total_rules := total_rules (fst st) + 1\<rparr>) = Inr m2"
      using count_status_Inr by blast
    from assms e Some obtain err where
      "find_rule rt b (get_default rr ''idref'' '''') = Inl err"
      by (cases "find_rule rt b (get_default rr ''idref'' '''')")
         (simp_all add: rule_result_raises_def)
    with e Some m2 show ?thesis
      by (simp add: process_rule_result_def Let_def)
  qed
qed

lemma process_rule_results_Inl_cases:
  "process_rule_results rt b rrs st = Inl err \<Longrightarrow>
     \<exists>rr \<in> set rrs. rule_result_raises rt b rr
        \<and> (err = AttributeError \<or> find_rule rt b (get_default rr ''idref'' '''') = Inl err)"
proof (induction rrs arbitrary: st)
  case Nil
  then show ?case by simp
next
  case (Cons x xs)
  show ?case
  proof (cases "process_rule_result rt b x st")
    case (Inl a)
    with Cons.prems have "a = err" by simp
    with Inl process_rule_result_Inl_cases [of rt b x st err] show ?thesis by simp
  next
    case (Inr st')
    with Cons.prems have "process_rule_results rt b xs st' = Inl err" by simp
    from Cons.IH [OF this] show ?thesis by auto
  qed
qed

lemma process_rule_results_raises:
  "\<exists>rr \<in> set rrs. rule_result_raises rt b rr \<Longrightarrow>
     \<exists>err. process_rule_results rt b rrs st = Inl err"
proof (induction rrs arbitrary: st)
  case Nil
  then show ?case by simp
next
  case (Cons x xs)
  show ?case
  proof (cases "process_rule_result rt b x st")
    case (Inl a)
    then show ?thesis by simp
  next
    case (Inr st')
    with process_rule_result_raises [of rt b x st] have "\<not> rule_result_raises rt b x"
      by auto
    with Cons.prems have "\<exists>rr \<in> set xs. rule_result_raises rt b rr" by simp
    from Cons.IH [OF this, of st'] Inr show ?thesis by simp
  qed
qed

lemma parse_results_try_Inl_cases:
  assumes "parse_results_try rt fs xml_file hostname_arg now = Inl err"
  shows "err = FileNotFoundError \<or> err = ParseError \<or> err = AttributeError
       \<or> (\<exists>rid b. elementpath_find rt (rule_path rid) b = Inl err)"
proof (cases "ET_parse fs xml_file")
  case (Inl a)
  with assms have "a = err" by (simp add: parse_results_try_def)
  with Inl show ?thesis
    by (auto simp: ET_parse_def split: option.splits file_content.splits)
next
  case (Inr doc)
  note doc = this
  show ?thesis
  proof (cases "find_descendant (xccdf ''Benchmark'') doc")
    case None
    with doc assms show ?thesis by (simp add: parse_results_try_def)
  next
    case (Some b)
    note b = this
    show ?thesis
    proof (cases "locate_test_result doc")
      case None
      with doc b assms show ?thesis by (simp add: parse_results_try_def)
    next
      case (Some tr)
      with doc b assms have "process_rule_results rt b
          (findall_children (xccdf ''rule-result'') tr) (metrics_init, []) = Inl err"
        by (cases "process_rule_results rt b
              (findall_children (xccdf ''rule-result'') tr) (metrics_init, [])")
           (auto simp: parse_results_try_def Let_def)
      from process_rule_results_Inl_cases [OF this] obtain rr where
        "err = AttributeError \<or> find_rule rt b (get_default rr ''idref'' '''') = Inl err"
        by blast
      then show ?thesis using find_rule_InlD by blast
    qed
  qed
qed

lemma parse_results_Some_iff:
  "parse_results rt fs xml_file hostname_arg now \<noteq> None \<longleftrightarrow>
     (\<exists>d b. ET_parse fs xml_file = Inr d
        \<and> find_descendant (xccdf ''Benchmark'') d = Some b
        \<and> locate_test_result d \<noteq> None
        \<and> (\<forall>rr \<in> set (rule_results_of d). \<not> rule_result_raises rt b rr))"
  (is "?l \<longleftrightarrow> ?r")
proof
  assume ?l
  then obtain r where "parse_results rt fs xml_file hostname_arg now = Some r" by blast
  then obtain d b tr m ds where
    p: "ET_parse fs xml_file = Inr d"
      "find_descendant (xccdf ''Benchmark'') d = Some b"
      "locate_test_result d = Some tr"
      "process_rule_results rt b (findall_children (xccdf ''rule-result'') tr)
         (metrics_init, []) = Inr (m, ds)"
    by (rule parse_results_SomeD)
  have "\<not> (\<exists>rr \<in> set (findall_children (xccdf ''rule-result'') tr). rule_result_raises rt b rr)"
    using process_rule_results_raises [of "findall_children (xccdf ''rule-result'') tr" rt b
        "(metrics_init, [])"] p(4)
    by auto
  with p show ?r by (auto simp: rule_results_of_def)
next
  assume ?r
  then obtain d b tr where
    p: "ET_parse fs xml_file = Inr d"
      "find_descendant (xccdf ''Benchmark'') d = Some b"
      "locate_test_result d = Some tr"
    and n: "\<forall>rr \<in> set (findall_children (xccdf ''rule-result'') tr). \<not> rule_result_raises rt b rr"
    by (auto simp: rule_results_of_def)
  obtain st where "process_rule_results rt b (findall_children (xccdf ''rule-result'') tr)
         (metrics_init, []) = Inr st"
  proof (cases "process_rule_results rt b (findall_children (xccdf ''rule-result'') tr)
         (metrics_init, [])")
    case (Inl err)
    from process_rule_results_Inl_cases [OF this] n show ?thesis by blast
  next
    case (Inr st)
    then show ?thesis by (rule that)
  qed
  with p show ?l
    by (cases st) (simp add: parse_results_def parse_results_try_def Let_def)
qed

subsection \<open>The scanner and the exporter\<close>

lemma scan_completed:
  assumes "mkstemp os = Inr results_file"
    and "resolve_content_file cfg os content_file = Some cf"
    and "subprocess_run os (oscap_cmd cfg p results_file target cf)
           (fs(results_file \<mapsto> Malformed)) = (CompletedProcess rc err, fs2)"
  shows "scan cfg os fs p content_file target =
          (if rc > 2 then (None, fs2(results_file := None)) else (Some results_file, fs2))"
proof (cases "fs2 results_file")
  case None
  then have "fs2(results_file := None) = fs2" by (simp add: fun_upd_idem)
  with None assms show ?thesis by (simp add: scan_def Let_def)
next
  case (Some c)
  with assms show ?thesis by (simp add: scan_def Let_def)
qed

lemma scan_and_update_no_scan:
  assumes "fst (scan cfg os fs p content_file None) = None"
  shows "snd (scan_and_update rt isoformat cfg os h now (fs, exporter) p content_file) = exporter"
  using assms
  by (cases "scan cfg os fs p content_file None") (simp add: scan_and_update_def)

lemma sample_scan_cmd:
  "oscap_cmd sample_config ''cis'' ''/tmp/scap_results_1.xml'' None
     ''/usr/share/xml/scap/ssg/content/ssg-debian-ds.xml''
   = [''oscap'', ''xccdf'', ''eval'', ''--profile'', ''cis'', ''--results'',
      ''/tmp/scap_results_1.xml'', ''/usr/share/xml/scap/ssg/content/ssg-debian-ds.xml'']"
  by (simp add: oscap_cmd_def sample_config_def)

lemma sample_resolve:
  "resolve_content_file sample_config (sample_os rc) None
     = Some ''/usr/share/xml/scap/ssg/content/ssg-debian-ds.xml''"
  by (simp add: resolve_content_file_def sample_os_def sample_config_def)

lemma sample_run:
  "subprocess_run (sample_os rc)
     (oscap_cmd sample_config ''cis'' ''/tmp/scap_results_1.xml'' None
        ''/usr/share/xml/scap/ssg/content/ssg-debian-ds.xml'')
     (Map.empty(''/tmp/scap_results_1.xml'' \<mapsto> Malformed))
   = (CompletedProcess rc '''', [''/tmp/scap_results_1.xml'' \<mapsto> Xml one_pass_doc])"
  unfolding sample_scan_cmd by (simp add: sample_os_def)

lemma update_twice: "AList.update k v2 (AList.update k v1 al) = AList.update k v2 al"
  by (induction al) auto

lemma map_of_update_same: "map_of (AList.update k v al) k = Some v"
  by (simp add: update_conv')

lemma host_a_b_ne: "host_a_b \<noteq> host_a"
proof
  assume "host_a_b = host_a"
  then have "total_rules host_a_b = total_rules host_a" by simp
  then show False
    by (simp add: host_a_b_def host_a_def sample_result_def notselected_result_def)
qed

lemma update_metrics_latest:
  assumes "isoformat (scan_time r) = Inr stamp"
  shows "fst (update_metrics isoformat e r) = None"
    and "latest_results (snd (update_metrics isoformat e r))
          = AList.update (result_key r) r (latest_results e)"
  using assms by (simp_all add: update_metrics_def Let_def)

lemma update_metrics_stored:
  assumes "update_metrics isoformat e r = (None, e')"
  shows "latest_results e' = AList.update (result_key r) r (latest_results e)"
proof (cases "isoformat (scan_time r)")
  case (Inl a)
  with assms show ?thesis by (simp add: update_metrics_def Let_def)
next
  case (Inr stamp)
  from update_metrics_latest(2) [of isoformat r stamp e] Inr assms show ?thesis by simp
qed

section \<open>The claims\<close>

subsection \<open>C1: the total and the status buckets\<close>

text \<open>
  C1 as stated fails: the one rule of \<open>notselected_doc\<close> has a status outside the
  table, so the parse succeeds with \<open>total_rules = 1\<close> and every status bucket 0.
\<close>

theorem total_ne_status_sum_counterexample:
  "\<not> (case parse_results sample_runtime notselected_fs ''results.xml'' None 7 of
        None \<Rightarrow> True
      | Some r \<Rightarrow> total_rules r = passed_rules r + failed_rules r + error_rules r
          + unknown_rules r + notapplicable_rules r + notchecked_rules r
          + informational_rules r)"
  by (simp add: notselected_parse notselected_result_def)

text \<open>
  C1, amended. For every successful parse, \<open>total_rules\<close> is the number of
  rule-result elements of the test result, and the seven status buckets sum to the
  number of those whose result element is there with a lower-cased text among the seven
  keywords. So the sum is at most \<open>total_rules\<close>, and equals it exactly when every
  rule-result has a recognised status.
\<close>

theorem parse_results_total_and_status_sum:
  assumes "parse_results rt fs xml_file hostname_arg now = Some r"
    and "ET_parse fs xml_file = Inr doc"
  shows "total_rules r = int (length (rule_results_of doc))
       \<and> passed_rules r + failed_rules r + error_rules r + unknown_rules r
          + notapplicable_rules r + notchecked_rules r + informational_rules r
         = int (length (filter (recognised rt) (rule_results_of doc)))
       \<and> passed_rules r + failed_rules r + error_rules r + unknown_rules r
          + notapplicable_rules r + notchecked_rules r + informational_rules r
         \<le> total_rules r
       \<and> (passed_rules r + failed_rules r + error_rules r + unknown_rules r
          + notapplicable_rules r + notchecked_rules r + informational_rules r
         = total_rules r \<longleftrightarrow> (\<forall>rr \<in> set (rule_results_of doc). recognised rt rr))"
proof -
  let ?sum = "passed_rules r + failed_rules r + error_rules r + unknown_rules r
          + notapplicable_rules r + notchecked_rules r + informational_rules r"
  let ?rrs = "rule_results_of doc"
  note c = parse_results_counters [OF assms]
  have "?sum = cnt (\<lambda>d. known_status (result d)) (rule_details r)"
    by (rule status_sum_eq [OF c(2)])
  also have "\<dots> = int (length (filter known_status (map result (rule_details r))))"
    by (rule cnt_map_result)
  also have "\<dots> = int (length (filter (recognised rt) ?rrs))"
    unfolding c(3) filter_status_list ..
  finally have s: "?sum = int (length (filter (recognised rt) ?rrs))" .
  have le: "length (filter (recognised rt) ?rrs) \<le> length ?rrs"
    by (rule length_filter_le)
  have "(?sum = total_rules r) \<longleftrightarrow> length (filter (recognised rt) ?rrs) = length ?rrs"
    unfolding s c(1) by simp
  then have eq: "(?sum = total_rules r) \<longleftrightarrow> (\<forall>rr \<in> set ?rrs. recognised rt rr)"
    unfolding length_filter_all .
  from le have "?sum \<le> total_rules r"
    unfolding s c(1) by simp
  with c(1) s eq show ?thesis by blast
qed

text \<open>
  On the sample document of the test suite all five rule-results are recognised and
  the sum meets the total.
\<close>

theorem parse_results_total_and_status_sum_witness:
  "parse_results sample_runtime sample_fs ''sample_scap_results.xml'' (Some ''test-server'') 0
     = Some sample_result
   \<and> total_rules sample_result = int (length (rule_results_of sample_scap_results))
   \<and> passed_rules sample_result + failed_rules sample_result + error_rules sample_result
       + unknown_rules sample_result + notapplicable_rules sample_result
       + notchecked_rules sample_result + informational_rules sample_result
      = total_rules sample_result
   \<and> total_rules sample_result = 5"
  using parse_results_total_and_status_sum [OF sample_parse sample_ET_parse] sample_parse
  by (simp add: sample_result_def)

subsection \<open>C2: the compliance score\<close>

text \<open>
  C2. For every successful parse the compliance score is
  \<open>passed_rules / (total_rules - notapplicable_rules - notchecked_rules) * 100\<close> when
  that denominator is positive and 0 otherwise; with no rule-result at all the total
  and the score are 0; and the score lies between 0 and 100. (The float arithmetic of
  the source is read as exact arithmetic.)
\<close>

theorem parse_results_compliance_score:
  assumes "parse_results rt fs xml_file hostname_arg now = Some r"
    and "ET_parse fs xml_file = Inr doc"
  shows "(0 < total_rules r - notapplicable_rules r - notchecked_rules r \<longrightarrow>
           compliance_score r
             = real_of_int (passed_rules r)
                 / real_of_int (total_rules r - notapplicable_rules r - notchecked_rules r)
                 * 100)
       \<and> (\<not> 0 < total_rules r - notapplicable_rules r - notchecked_rules r \<longrightarrow>
           compliance_score r = 0)
       \<and> (rule_results_of doc = [] \<longrightarrow> total_rules r = 0 \<and> compliance_score r = 0)
       \<and> 0 \<le> compliance_score r \<and> compliance_score r \<le> 100"
proof -
  let ?a = "total_rules r - notapplicable_rules r - notchecked_rules r"
  note c = parse_results_counters [OF assms]
  note b = parse_results_bounds [OF assms]
  have cs: "compliance_score r =
      (if total_rules r > 0 then if ?a > 0
         then real_of_int (passed_rules r) / real_of_int ?a * 100 else 0 else 0)"
    unfolding c(5) by (simp add: compliance_def Let_def metrics.defs)
  have pos: "0 < ?a \<Longrightarrow> 0 < total_rules r"
    using b by linarith
  have 1: "0 < ?a \<longrightarrow> compliance_score r = real_of_int (passed_rules r) / real_of_int ?a * 100"
    using cs pos by simp
  have 2: "\<not> 0 < ?a \<longrightarrow> compliance_score r = 0"
    using cs by simp
  have 3: "rule_results_of doc = [] \<longrightarrow> total_rules r = 0 \<and> compliance_score r = 0"
    using cs c(1) by simp
  have 4: "0 \<le> compliance_score r \<and> compliance_score r \<le> 100"
  proof (cases "0 < ?a")
    case True
    have "passed_rules r \<le> ?a" using b by linarith
    from percent_bounds [OF b(1) this True] 1 True show ?thesis by simp
  next
    case False
    with 2 show ?thesis by simp
  qed
  from 1 2 3 4 show ?thesis by blast
qed

text \<open>The sample document: one passed rule of four applicable ones, 25 percent.\<close>

theorem parse_results_compliance_score_witness:
  "parse_results sample_runtime sample_fs ''sample_scap_results.xml'' (Some ''test-server'') 0
     = Some sample_result
   \<and> 0 < total_rules sample_result - notapplicable_rules sample_result
          - notchecked_rules sample_result
   \<and> compliance_score sample_result
        = real_of_int (passed_rules sample_result)
            / real_of_int (total_rules sample_result - notapplicable_rules sample_result
                - notchecked_rules sample_result) * 100
   \<and> compliance_score sample_result = 25"
  using parse_results_compliance_score [OF sample_parse sample_ET_parse] sample_parse
  by (simp add: sample_result_def)

subsection \<open>C3: failed rules by severity\<close>



subsection \<open>C4: a status outside the table\<close>

text \<open>
  C4 as stated fails in its last part: the rule of \<open>notselected_doc\<close> has a status
  outside the table and still gets its entry in the detail list.
\<close>

theorem unknown_status_detail_counterexample:
  "\<not> known_status ''notselected''
   \<and> map_option rule_details (parse_results sample_runtime notselected_fs ''results.xml'' None 7)
     = Some [\<lparr>rule_id = ''rule_a'', title = ''Rule A'', result = ''notselected'',
              severity = ''high''\<rparr>]"
  by (simp add: notselected_parse notselected_result_def known_status_iff)

text \<open>
  C4, amended. For a rule-result whose lower-cased status is none of the seven
  keywords, a turn of the loop in which the rule lookup raises nothing increments
  \<open>total_rules\<close>, leaves every status and severity bucket as it was, raises nothing,
  and appends exactly one entry (rule id, title, the status, severity) to the detail
  list. In a successful parse the detail list has one entry for each rule-result that
  has a result element: a slot is skipped only where that element is missing.
\<close>

theorem unknown_status_keeps_detail:
  "(result_status_of rt rr = Some s \<and> \<not> known_status s
      \<and> find_rule rt b (get_default rr ''idref'' '''') = Inr rd
    \<longrightarrow> process_rule_result rt b rr (m, ds)
          = Inr (m\<lparr>total_rules := total_rules m + 1\<rparr>,
                 ds @ [\<lparr>rule_id = get_default rr ''idref'' '''',
                        title = rule_title_of rd (get_default rr ''idref'' ''''),
                        result = s, severity = rule_severity rt rd\<rparr>]))
   \<and> (parse_results rt fs xml_file hostname_arg now = Some r \<and> ET_parse fs xml_file = Inr doc
    \<longrightarrow> length (rule_details r)
          = length (filter (\<lambda>rr. find_child (xccdf ''result'') rr \<noteq> None)
              (rule_results_of doc)))"
  using process_rule_result_unknown_status [of rt rr s b rd m ds]
    parse_results_counters(4) [of rt fs xml_file hostname_arg now r doc]
  by blast

text \<open>The turn of the loop at the rule of \<open>notselected_doc\<close>.\<close>

theorem unknown_status_keeps_detail_witness:
  "result_status_of sample_runtime (sample_rule_result ''rule_a'' ''notselected'')
     = Some ''notselected''
   \<and> \<not> known_status ''notselected''
   \<and> find_rule sample_runtime small_rules ''rule_a''
        = Inr (Some (sample_rule ''rule_a'' ''high'' ''Rule A''))
   \<and> process_rule_result sample_runtime small_rules
        (sample_rule_result ''rule_a'' ''notselected'') (metrics_init, [])
      = Inr (metrics_init\<lparr>total_rules := 1\<rparr>,
             [\<lparr>rule_id = ''rule_a'', title = ''Rule A'', result = ''notselected'',
               severity = ''high''\<rparr>])
   \<and> length (filter (\<lambda>rr. find_child (xccdf ''result'') rr \<noteq> None)
        (rule_results_of notselected_doc)) = 1"
proof -
  have 1: "result_status_of sample_runtime (sample_rule_result ''rule_a'' ''notselected'')
     = Some ''notselected''"
    by (simp add: result_status_of_def sample_rule_result_def find_child_def xccdf_def
          sample_runtime_def ascii_lower_def)
  have 2: "\<not> known_status ''notselected''"
    by (simp add: known_status_iff)
  have id: "get_default (sample_rule_result ''rule_a'' ''notselected'') ''idref'' '''' = ''rule_a''"
    by (simp add: get_default_def get_attr_def sample_rule_result_def)
  have 3: "find_rule sample_runtime small_rules ''rule_a''
        = Inr (Some (sample_rule ''rule_a'' ''high'' ''Rule A''))"
    by (simp add: find_rule_def small_rules_def descendants_def sample_rule_def xccdf_def
          get_attr_def)
  have t: "rule_title_of (Some (sample_rule ''rule_a'' ''high'' ''Rule A'')) ''rule_a'' = ''Rule A''"
    by (simp add: rule_title_of_def sample_rule_def find_child_def xccdf_def)
  have sv: "rule_severity sample_runtime (Some (sample_rule ''rule_a'' ''high'' ''Rule A'')) = ''high''"
    by (simp add: rule_severity_def sample_rule_def get_default_def get_attr_def
          sample_runtime_def ascii_lower_def)
  from unknown_status_keeps_detail [of sample_runtime "sample_rule_result ''rule_a'' ''notselected''"
      "''notselected''" small_rules "Some (sample_rule ''rule_a'' ''high'' ''Rule A'')"
      metrics_init "[]" notselected_fs "''results.xml''" None 7 "notselected_result 7" notselected_doc]
    1 2 3 notselected_parse [of 7] notselected_ET_parse
  show ?thesis
    by (simp add: id t sv metrics_init_def notselected_result_def)
qed

subsection \<open>C5: GET /metrics before the first update\<close>

text \<open>
  C5 as stated fails: the handler of the exporter answers GET /metrics with 200, not
  503, for an exporter that has never been updated (as \<^verbatim>\<open>test_http_server\<close> of the
  test suite expects).
\<close>

theorem metrics_before_update_counterexample:
  "status (do_GET sample_exposition PrometheusExporter_init ''/metrics'') = 200
   \<and> status (do_GET sample_exposition PrometheusExporter_init ''/metrics'') \<noteq> 503"
  by (simp add: do_GET_def sample_exposition_def)

text \<open>
  C5, amended. The handler of the exporter never answers GET /metrics with 503: it
  answers 200, content type \<^verbatim>\<open>text/plain; charset=utf-8\<close>, with the text exposition
  of the registry whenever the exposition is generated, before as after the first
  update, and 500 when generating it raises. The handler of \<^verbatim>\<open>metrics_server.py\<close>
  answers 503 exactly when the exporter object of the module does not exist yet, and
  200 with the exposition once it does.
\<close>

theorem get_metrics_status:
  "status (do_GET generate_latest exporter ''/metrics'') \<noteq> 503
   \<and> (generate_latest (exporter_registry exporter) = Inr out
    \<longrightarrow> do_GET generate_latest exporter ''/metrics''
          = \<lparr>status = 200, content_type = ''text/plain; charset=utf-8'', body = Bytes out\<rparr>)
   \<and> (generate_latest (exporter_registry exporter) = Inl e
    \<longrightarrow> status (do_GET generate_latest exporter ''/metrics'') = 500)
   \<and> (status (server_do_GET generate_latest exporter_global ''/metrics'') = 503
        \<longleftrightarrow> exporter_global = None)
   \<and> (exporter_global = Some exporter \<and> generate_latest (exporter_registry exporter) = Inr out
    \<longrightarrow> server_do_GET generate_latest exporter_global ''/metrics''
          = \<lparr>status = 200, content_type = ''text/plain; charset=utf-8'', body = Bytes out\<rparr>)"
proof -
  have 1: "status (do_GET generate_latest exporter ''/metrics'') \<noteq> 503"
    by (cases "generate_latest (exporter_registry exporter)")
       (simp_all add: do_GET_def send_error_def)
  have 2: "status (server_do_GET generate_latest exporter_global ''/metrics'') = 503
        \<longleftrightarrow> exporter_global = None"
  proof (cases exporter_global)
    case None
    then show ?thesis by (simp add: server_do_GET_def send_error_def)
  next
    case (Some ex)
    then show ?thesis
      by (cases "generate_latest (exporter_registry ex)")
         (simp_all add: server_do_GET_def send_error_def)
  qed
  from 1 2 show ?thesis
    by (simp add: do_GET_def server_do_GET_def send_error_def)
qed

text \<open>Both handlers on an exporter without any update, and the server without one.\<close>

theorem get_metrics_status_witness:
  "do_GET sample_exposition PrometheusExporter_init ''/metrics''
     = \<lparr>status = 200, content_type = ''text/plain; charset=utf-8'',
        body = Bytes ''# TYPE scap_total_rules gauge''\<rparr>
   \<and> status (do_GET (\<lambda>reg. Inl ValueError) PrometheusExporter_init ''/metrics'') = 500
   \<and> status (server_do_GET sample_exposition None ''/metrics'') = 503
   \<and> server_do_GET sample_exposition (Some PrometheusExporter_init) ''/metrics''
     = \<lparr>status = 200, content_type = ''text/plain; charset=utf-8'',
        body = Bytes ''# TYPE scap_total_rules gauge''\<rparr>"
  using get_metrics_status [of sample_exposition PrometheusExporter_init
      "''# TYPE scap_total_rules gauge''" ValueError "Some PrometheusExporter_init"]
    get_metrics_status [of "\<lambda>reg. Inl ValueError" PrometheusExporter_init
      "''''" ValueError None]
    get_metrics_status [of sample_exposition PrometheusExporter_init
      "''# TYPE scap_total_rules gauge''" ValueError None]
  by (simp add: sample_exposition_def)

subsection \<open>C6: the exit code of the scanner\<close>

text \<open>
  C6. When the scanner process completes, \<open>scan\<close> returns the path of the results
  file, with the files as the scanner left them, for the exit codes 0, 1 and 2; for an
  exit code above 2 it returns None and the results file is gone. When \<open>scan\<close>
  returns None, the cycle \<open>scan_and_update\<close> leaves the exporter as it was.
\<close>

theorem scan_exit_codes:
  "(mkstemp os = Inr results_file
      \<and> resolve_content_file cfg os content_file = Some cf
      \<and> subprocess_run os (oscap_cmd cfg p results_file target cf)
           (fs(results_file \<mapsto> Malformed)) = (CompletedProcess rc err, fs2)
    \<longrightarrow> (rc = 0 \<or> rc = 1 \<or> rc = 2
           \<longrightarrow> scan cfg os fs p content_file target = (Some results_file, fs2))
      \<and> (2 < rc
           \<longrightarrow> fst (scan cfg os fs p content_file target) = None
             \<and> snd (scan cfg os fs p content_file target) results_file = None))
   \<and> (fst (scan cfg os fs p content_file None) = None
    \<longrightarrow> snd (scan_and_update rt isoformat cfg os h now (fs, exporter) p content_file)
          = exporter)"
proof -
  have 1: "(rc = 0 \<or> rc = 1 \<or> rc = 2
           \<longrightarrow> scan cfg os fs p content_file target = (Some results_file, fs2))
      \<and> (2 < rc
           \<longrightarrow> fst (scan cfg os fs p content_file target) = None
             \<and> snd (scan cfg os fs p content_file target) results_file = None)"
    if "mkstemp os = Inr results_file"
      and "resolve_content_file cfg os content_file = Some cf"
      and "subprocess_run os (oscap_cmd cfg p results_file target cf)
           (fs(results_file \<mapsto> Malformed)) = (CompletedProcess rc err, fs2)"
    unfolding scan_completed [OF that] by auto
  from 1 scan_and_update_no_scan [of cfg os fs p content_file rt isoformat h now exporter]
  show ?thesis by blast
qed

text \<open>Exit code 1 keeps the file the scanner wrote; exit code 3 removes it.\<close>

theorem scan_exit_codes_witness:
  "scan sample_config (sample_os 1) Map.empty ''cis'' None None
     = (Some ''/tmp/scap_results_1.xml'', [''/tmp/scap_results_1.xml'' \<mapsto> Xml one_pass_doc])
   \<and> fst (scan sample_config (sample_os 3) Map.empty ''cis'' None None) = None
   \<and> snd (scan sample_config (sample_os 3) Map.empty ''cis'' None None)
        ''/tmp/scap_results_1.xml'' = None
   \<and> snd (scan_and_update sample_runtime sample_isoformat sample_config (sample_os 3)
        (Some ''host1'') 0 (Map.empty, PrometheusExporter_init) ''cis'' None)
      = PrometheusExporter_init"
proof -
  have m: "mkstemp (sample_os rc) = Inr ''/tmp/scap_results_1.xml''" for rc
    by (simp add: sample_os_def)
  note a = scan_exit_codes [of "sample_os 1" "''/tmp/scap_results_1.xml''" sample_config None
      "''/usr/share/xml/scap/ssg/content/ssg-debian-ds.xml''" "''cis''" None Map.empty 1 "''''"
      "[''/tmp/scap_results_1.xml'' \<mapsto> Xml one_pass_doc]"]
  note b = scan_exit_codes [of "sample_os 3" "''/tmp/scap_results_1.xml''" sample_config None
      "''/usr/share/xml/scap/ssg/content/ssg-debian-ds.xml''" "''cis''" None Map.empty 3 "''''"
      "[''/tmp/scap_results_1.xml'' \<mapsto> Xml one_pass_doc]" sample_runtime sample_isoformat
      "Some ''host1''" 0 PrometheusExporter_init]
  from a b m sample_resolve sample_run show ?thesis by simp
qed

subsection \<open>C7: no Benchmark element\<close>

text \<open>
  C7. A well-formed document in which no element, the root included, has the
  namespace-qualified tag Benchmark is not parsed into a record: \<open>parse_results\<close>
  returns None, also when the document is a test result with rule-results.
\<close>

theorem parse_results_no_benchmark:
  assumes "ET_parse fs xml_file = Inr doc"
    and "\<forall>e \<in> set (iter doc). tag e \<noteq> xccdf ''Benchmark''"
  shows "parse_results rt fs xml_file hostname_arg now = None"
  using assms(1) find_descendant_None [OF assms(2)]
  by (simp add: parse_results_def parse_results_try_def)

text \<open>A test result with one rule-result and no benchmark.\<close>

theorem parse_results_no_benchmark_witness:
  "ET_parse no_benchmark_fs ''results.xml'' = Inr no_benchmark_doc
   \<and> locate_test_result no_benchmark_doc = Some no_benchmark_doc
   \<and> length (rule_results_of no_benchmark_doc) = 1
   \<and> parse_results sample_runtime no_benchmark_fs ''results.xml'' (Some ''host1'') 0 = None"
proof -
  have l: "locate_test_result no_benchmark_doc = Some no_benchmark_doc"
    by (simp add: locate_test_result_def no_benchmark_doc_def xccdf_def)
  have "length (rule_results_of no_benchmark_doc) = 1"
    unfolding rule_results_of_def l
    by (simp add: no_benchmark_doc_def findall_children_def sample_rule_result_def xccdf_def)
  with l no_benchmark_ET_parse
    parse_results_no_benchmark [OF no_benchmark_ET_parse no_benchmark_iter,
      of sample_runtime "Some ''host1''" 0]
  show ?thesis by simp
qed

subsection \<open>C8: parsing the same document twice\<close>

text \<open>
  C8. Two runs of \<open>parse_results\<close> on the same file with the same hostname, at the
  times \<open>t1\<close> and \<open>t2\<close>, both fail or both succeed; two records differ at most in
  \<open>scan_time\<close>, which is the start time of the document when that is there and
  parses, and the time of the run otherwise: it differs only when the start-time
  element is missing or unparseable.
\<close>

theorem parse_results_reparse:
  "(parse_results rt fs xml_file hostname_arg t1 = None
      \<longleftrightarrow> parse_results rt fs xml_file hostname_arg t2 = None)
   \<and> (parse_results rt fs xml_file hostname_arg t1 = Some r1
      \<and> parse_results rt fs xml_file hostname_arg t2 = Some r2
      \<longrightarrow> r2 = r1\<lparr>scan_time := scan_time r2\<rparr>
        \<and> scan_time r1 = (case doc_start_time rt fs xml_file of None \<Rightarrow> t1 | Some t \<Rightarrow> t)
        \<and> scan_time r2 = (case doc_start_time rt fs xml_file of None \<Rightarrow> t2 | Some t \<Rightarrow> t)
        \<and> (scan_time r1 \<noteq> scan_time r2 \<longrightarrow> doc_start_time rt fs xml_file = None))"
proof -
  note a = parse_results_scan_time [of rt fs xml_file hostname_arg t2 t1]
  note b = parse_results_scan_time [of rt fs xml_file hostname_arg t1 t1]
  have 1: "parse_results rt fs xml_file hostname_arg t1 = None
      \<longleftrightarrow> parse_results rt fs xml_file hostname_arg t2 = None"
    unfolding a by simp
  have 2: "r2 = r1\<lparr>scan_time := scan_time r2\<rparr>
        \<and> scan_time r1 = (case doc_start_time rt fs xml_file of None \<Rightarrow> t1 | Some t \<Rightarrow> t)
        \<and> scan_time r2 = (case doc_start_time rt fs xml_file of None \<Rightarrow> t2 | Some t \<Rightarrow> t)
        \<and> (scan_time r1 \<noteq> scan_time r2 \<longrightarrow> doc_start_time rt fs xml_file = None)"
    if p1: "parse_results rt fs xml_file hostname_arg t1 = Some r1"
      and p2: "parse_results rt fs xml_file hostname_arg t2 = Some r2"
  proof -
    from a p1 p2 have r2: "r2 = r1\<lparr>scan_time :=
          (case doc_start_time rt fs xml_file of None \<Rightarrow> t2 | Some t \<Rightarrow> t)\<rparr>"
      by simp
    from b p1 have r1: "r1 = r1\<lparr>scan_time :=
          (case doc_start_time rt fs xml_file of None \<Rightarrow> t1 | Some t \<Rightarrow> t)\<rparr>"
      by simp
    have s2: "scan_time r2 = (case doc_start_time rt fs xml_file of None \<Rightarrow> t2 | Some t \<Rightarrow> t)"
      by (subst r2) simp
    have s1: "scan_time r1 = (case doc_start_time rt fs xml_file of None \<Rightarrow> t1 | Some t \<Rightarrow> t)"
      by (subst r1) simp
    have "r2 = r1\<lparr>scan_time := scan_time r2\<rparr>"
      unfolding s2 by (rule r2)
    moreover have "scan_time r1 \<noteq> scan_time r2 \<longrightarrow> doc_start_time rt fs xml_file = None"
      unfolding s1 s2 by (cases "doc_start_time rt fs xml_file") simp_all
    ultimately show ?thesis using s1 s2 by blast
  qed
  from 1 2 show ?thesis by blast
qed

text \<open>
  \<open>notselected_doc\<close> has no start time and its two records differ in \<open>scan_time\<close>
  alone; the sample document has one and its two records are equal.
\<close>

theorem parse_results_reparse_witness:
  "parse_results sample_runtime notselected_fs ''results.xml'' None 7
     = Some (notselected_result 7)
   \<and> parse_results sample_runtime notselected_fs ''results.xml'' None 8
     = Some (notselected_result 8)
   \<and> notselected_result 8 = (notselected_result 7)\<lparr>scan_time := 8\<rparr>
   \<and> scan_time (notselected_result 7) \<noteq> scan_time (notselected_result 8)
   \<and> doc_start_time sample_runtime notselected_fs ''results.xml'' = None
   \<and> doc_start_time sample_runtime sample_fs ''sample_scap_results.xml'' = Some 1704110400
   \<and> parse_results sample_runtime sample_fs ''sample_scap_results.xml'' None 7
       = parse_results sample_runtime sample_fs ''sample_scap_results.xml'' None 8"
  using parse_results_reparse [of sample_runtime notselected_fs "''results.xml''" None 7 8
      "notselected_result 7" "notselected_result 8"]
    notselected_parse [of 7] notselected_parse [of 8] sample_start_time
    sample_parse [of None 7] sample_parse [of None 8]
  by (simp add: notselected_result_def)

subsection \<open>C9: colliding keys of latest_results\<close>

text \<open>
  C9. A successful \<open>update_metrics\<close> stores the record in \<open>latest_results\<close> under
  the string hostname, underscore, profile, replacing what was there. The pairs
  (a_b, c) and (a, b_c) are different and have the same key. Whenever two records of
  hosts and profiles with the same key are stored one after the other, the dictionary
  holds the second record under that key as if the first update had never been made,
  and GET /results shows that one entry.
\<close>

theorem result_key_collision:
  "(update_metrics isoformat e r = (None, e')
    \<longrightarrow> latest_results e'
          = AList.update (py_str (hostname r) @ ''_'' @ profile r) r (latest_results e)
      \<and> map_of (latest_results e') (py_str (hostname r) @ ''_'' @ profile r) = Some r)
   \<and> (hostname r = Some h \<longrightarrow> result_key r = h @ ''_'' @ profile r)
   \<and> (''a_b'', ''c'') \<noteq> (''a'', ''b_c'')
   \<and> ''a_b'' @ ''_'' @ ''c'' = ''a'' @ ''_'' @ ''b_c''
   \<and> (hostname r1 = Some h1 \<and> hostname r2 = Some h2
      \<and> h1 @ ''_'' @ profile r1 = h2 @ ''_'' @ profile r2
      \<and> update_metrics isoformat e r1 = (None, e1)
      \<and> update_metrics isoformat e1 r2 = (None, e2)
    \<longrightarrow> map_of (latest_results e1) (h1 @ ''_'' @ profile r1) = Some r1
      \<and> map_of (latest_results e2) (h1 @ ''_'' @ profile r1) = Some r2
      \<and> latest_results e2 = AList.update (h2 @ ''_'' @ profile r2) r2 (latest_results e)
      \<and> body (do_GET generate_latest e2 ''/results'')
          = Json_results (AList.update (h2 @ ''_'' @ profile r2) r2 (latest_results e)))"
proof -
  have 1: "latest_results e'
          = AList.update (py_str (hostname r) @ ''_'' @ profile r) r (latest_results e)
      \<and> map_of (latest_results e') (py_str (hostname r) @ ''_'' @ profile r) = Some r"
    if "update_metrics isoformat e r = (None, e')"
    using update_metrics_stored [OF that]
    by (simp add: result_key_def map_of_update_same)
  have 2: "result_key r = h @ ''_'' @ profile r" if "hostname r = Some h"
    using that by (simp add: result_key_def py_str_def)
  have 3: "map_of (latest_results e1) (h1 @ ''_'' @ profile r1) = Some r1
      \<and> map_of (latest_results e2) (h1 @ ''_'' @ profile r1) = Some r2
      \<and> latest_results e2 = AList.update (h2 @ ''_'' @ profile r2) r2 (latest_results e)
      \<and> body (do_GET generate_latest e2 ''/results'')
          = Json_results (AList.update (h2 @ ''_'' @ profile r2) r2 (latest_results e))"
    if h: "hostname r1 = Some h1" "hostname r2 = Some h2"
      and k: "h1 @ ''_'' @ profile r1 = h2 @ ''_'' @ profile r2"
      and u1: "update_metrics isoformat e r1 = (None, e1)"
      and u2: "update_metrics isoformat e1 r2 = (None, e2)"
  proof -
    have k1: "result_key r1 = h1 @ ''_'' @ profile r1"
      and k2: "result_key r2 = h1 @ ''_'' @ profile r1"
      using h k by (simp_all add: result_key_def py_str_def)
    have l1: "latest_results e1 = AList.update (h1 @ ''_'' @ profile r1) r1 (latest_results e)"
      using update_metrics_stored [OF u1] k1 by simp
    have l2: "latest_results e2 = AList.update (h1 @ ''_'' @ profile r1) r2 (latest_results e)"
      using update_metrics_stored [OF u2] k2 l1 by (simp add: update_twice)
    have "body (do_GET generate_latest e2 ''/results'')
          = Json_results (AList.update (h1 @ ''_'' @ profile r1) r2 (latest_results e))"
      by (simp add: do_GET_def l2)
    with l1 l2 show ?thesis
      unfolding k [symmetric] by (simp add: map_of_update_same)
  qed
  have 4: "(''a_b'', ''c'') \<noteq> (''a'', ''b_c'')"
    "''a_b'' @ ''_'' @ ''c'' = ''a'' @ ''_'' @ ''b_c''"
    by simp_all
  from 1 2 3 4 show ?thesis by blast
qed

text \<open>
  The two updates for (a_b, c) and (a, b_c) on a new exporter leave one entry, that
  of the second host.
\<close>

theorem result_key_collision_witness:
  "fst (update_metrics sample_isoformat PrometheusExporter_init host_a_b) = None
   \<and> fst (update_metrics sample_isoformat
        (snd (update_metrics sample_isoformat PrometheusExporter_init host_a_b)) host_a) = None
   \<and> host_a_b \<noteq> host_a
   \<and> hostname host_a_b = Some ''a_b'' \<and> profile host_a_b = ''c''
   \<and> hostname host_a = Some ''a'' \<and> profile host_a = ''b_c''
   \<and> result_key host_a_b = ''a_b_c'' \<and> result_key host_a = ''a_b_c''
   \<and> latest_results (snd (update_metrics sample_isoformat PrometheusExporter_init host_a_b))
      = [(''a_b_c'', host_a_b)]
   \<and> latest_results (snd (update_metrics sample_isoformat
        (snd (update_metrics sample_isoformat PrometheusExporter_init host_a_b)) host_a))
      = [(''a_b_c'', host_a)]
   \<and> body (do_GET sample_exposition (snd (update_metrics sample_isoformat
        (snd (update_metrics sample_isoformat PrometheusExporter_init host_a_b)) host_a))
        ''/results'')
      = Json_results [(''a_b_c'', host_a)]"
proof -
  let ?e1 = "snd (update_metrics sample_isoformat PrometheusExporter_init host_a_b)"
  let ?e2 = "snd (update_metrics sample_isoformat ?e1 host_a)"
  have s1: "sample_isoformat (scan_time host_a_b) = Inr ''2024-01-01T12:00:00''"
    by (simp add: sample_isoformat_def host_a_b_def sample_result_def)
  have s2: "sample_isoformat (scan_time host_a) = Inr ''2024-01-01T12:00:00''"
    by (simp add: sample_isoformat_def host_a_def notselected_result_def)
  have f1: "fst (update_metrics sample_isoformat PrometheusExporter_init host_a_b) = None"
    using s1 by (rule update_metrics_latest(1))
  have f2: "fst (update_metrics sample_isoformat ?e1 host_a) = None"
    using s2 by (rule update_metrics_latest(1))
  have u1: "update_metrics sample_isoformat PrometheusExporter_init host_a_b = (None, ?e1)"
    using f1 by (metis prod.collapse)
  have u2: "update_metrics sample_isoformat ?e1 host_a = (None, ?e2)"
    using f2 by (metis prod.collapse)
  have h: "hostname host_a_b = Some ''a_b''" "profile host_a_b = ''c''"
    "hostname host_a = Some ''a''" "profile host_a = ''b_c''"
    by (simp_all add: host_a_b_def host_a_def)
  have i: "latest_results PrometheusExporter_init = []"
    by (simp add: PrometheusExporter_init_def)
  note t1 = result_key_collision [where isoformat = sample_isoformat
      and e = PrometheusExporter_init and r = host_a_b and e' = ?e1 and h = "''a_b''"
      and ?r1.0 = host_a_b and ?h1.0 = "''a_b''" and ?r2.0 = host_a and ?h2.0 = "''a''"
      and ?e1.0 = ?e1 and ?e2.0 = ?e2 and generate_latest = sample_exposition]
  note t2 = result_key_collision [where isoformat = sample_isoformat
      and e = PrometheusExporter_init and r = host_a and e' = ?e1 and h = "''a''"
      and ?r1.0 = host_a_b and ?h1.0 = "''a_b''" and ?r2.0 = host_a and ?h2.0 = "''a''"
      and ?e1.0 = ?e1 and ?e2.0 = ?e2 and generate_latest = sample_exposition]
  from t1 t2 h u1 u2 i host_a_b_ne f1 f2
  show ?thesis by (simp add: py_str_def)
qed

subsection \<open>C10: an empty result element\<close>

text \<open>
  C10 as stated fails for a document that has a rule-result with an empty result
  element where the parser does not read it: in a second test result, or after another
  result child of the same rule-result. Both documents parse.
\<close>

theorem empty_result_elsewhere_counterexample:
  "empty_rule_result \<in> set (iter two_test_results_doc)
   \<and> tag empty_rule_result = xccdf ''rule-result''
   \<and> children empty_rule_result = [Element (xccdf ''result'') [] None []]
   \<and> parse_results sample_runtime two_test_results_fs ''results.xml'' None 0
      = Some (one_pass_result 0)
   \<and> two_results_rule \<in> set (iter two_results_doc)
   \<and> tag two_results_rule = xccdf ''rule-result''
   \<and> Element (xccdf ''result'') [] None [] \<in> set (children two_results_rule)
   \<and> parse_results sample_runtime two_results_fs ''results.xml'' None 0
      = Some (one_pass_result 0)"
proof -
  have "empty_rule_result \<in> set (iter two_test_results_doc)"
    by (simp add: two_test_results_doc_def empty_rule_result_def)
  moreover have "two_results_rule \<in> set (iter two_results_doc)"
    by (simp add: two_results_doc_def two_results_rule_def)
  moreover have "tag empty_rule_result = xccdf ''rule-result''"
    "children empty_rule_result = [Element (xccdf ''result'') [] None []]"
    by (simp_all add: empty_rule_result_def)
  moreover have "tag two_results_rule = xccdf ''rule-result''"
    "Element (xccdf ''result'') [] None [] \<in> set (children two_results_rule)"
    by (simp_all add: two_results_rule_def)
  ultimately show ?thesis
    using two_test_results_parse [of 0] two_results_parse [of 0] by simp
qed

text \<open>
  C10, amended. When a rule-result that the loop processes (a rule-result child of
  the located test result) has a first result child without text, \<open>parse_results\<close>
  returns None for the whole document: nothing is skipped and the other rule-results
  are lost. An exception raised in the body of \<open>parse_results\<close> makes it return None,
  and the only exceptions the body raises are those of reading the file, the
  AttributeError of an empty result element and what the path engine raises for a
  rule id (the dictionary increments never raise KeyError). \<open>parse_results\<close> returns a
  record exactly when the file is well-formed, has a Benchmark beneath the root and a
  test result, and no processed rule-result raises; the caller gets a record or None.
\<close>

theorem parse_results_empty_result_aborts:
  "(ET_parse fs xml_file = Inr doc
      \<and> rr \<in> set (rule_results_of doc)
      \<and> find_child (xccdf ''result'') rr = Some e \<and> etext e = None
    \<longrightarrow> parse_results rt fs xml_file hostname_arg now = None)
   \<and> (parse_results_try rt fs xml_file hostname_arg now = Inl err
    \<longrightarrow> parse_results rt fs xml_file hostname_arg now = None
      \<and> (err = FileNotFoundError \<or> err = ParseError \<or> err = AttributeError
         \<or> (\<exists>rid b. elementpath_find rt (rule_path rid) b = Inl err)))
   \<and> (parse_results rt fs xml_file hostname_arg now \<noteq> None \<longleftrightarrow>
       (\<exists>d b. ET_parse fs xml_file = Inr d
          \<and> find_descendant (xccdf ''Benchmark'') d = Some b
          \<and> locate_test_result d \<noteq> None
          \<and> (\<forall>x \<in> set (rule_results_of d). \<not> rule_result_raises rt b x)))"
proof -
  have 1: "parse_results rt fs xml_file hostname_arg now = None"
    if doc: "ET_parse fs xml_file = Inr doc" and rr: "rr \<in> set (rule_results_of doc)"
      and e: "find_child (xccdf ''result'') rr = Some e" "etext e = None"
  proof (rule ccontr)
    assume "parse_results rt fs xml_file hostname_arg now \<noteq> None"
    then obtain d b where "ET_parse fs xml_file = Inr d"
      "\<forall>x \<in> set (rule_results_of d). \<not> rule_result_raises rt b x"
      unfolding parse_results_Some_iff by blast
    with doc rr have "\<not> rule_result_raises rt b rr" by simp
    with e show False by (simp add: rule_result_raises_def)
  qed
  have 2: "parse_results rt fs xml_file hostname_arg now = None
      \<and> (err = FileNotFoundError \<or> err = ParseError \<or> err = AttributeError
         \<or> (\<exists>rid b. elementpath_find rt (rule_path rid) b = Inl err))"
    if t: "parse_results_try rt fs xml_file hostname_arg now = Inl err"
    using parse_results_try_Inl_cases [OF t] t by (simp add: parse_results_def)
  from 1 2 parse_results_Some_iff [of rt fs xml_file hostname_arg now]
  show ?thesis by blast
qed

text \<open>
  \<open>empty_result_doc\<close>: the passed rule before the empty result element is lost with
  it, while the document without the second rule-result parses.
\<close>

theorem parse_results_empty_result_aborts_witness:
  "ET_parse empty_result_fs ''results.xml'' = Inr empty_result_doc
   \<and> empty_rule_result \<in> set (rule_results_of empty_result_doc)
   \<and> find_child (xccdf ''result'') empty_rule_result
      = Some (Element (xccdf ''result'') [] None [])
   \<and> etext (Element (xccdf ''result'') [] None []) = None
   \<and> parse_results_try sample_runtime empty_result_fs ''results.xml'' None 0
      = Inl AttributeError
   \<and> parse_results sample_runtime empty_result_fs ''results.xml'' None 0 = None
   \<and> parse_results sample_runtime one_pass_fs ''results.xml'' None 0 \<noteq> None"
proof -
  have m: "empty_rule_result \<in> set (rule_results_of empty_result_doc)"
    by (simp add: empty_result_rule_results empty_rule_result_def)
  have f: "find_child (xccdf ''result'') empty_rule_result
      = Some (Element (xccdf ''result'') [] None [])"
    by (simp add: find_child_def empty_rule_result_def)
  from parse_results_empty_result_aborts [of empty_result_fs "''results.xml''"
      empty_result_doc empty_rule_result "Element (xccdf ''result'') [] None []"
      sample_runtime None 0 AttributeError]
    empty_result_ET_parse m f empty_result_try one_pass_parse [of 0]
  show ?thesis by simp
qed

end
